theory Spec2Isabelle
  imports Complex_Main "HOL-Library.Multiset"
begin

section \<open>The GOES-16 RGB composite notebook\<close>

text \<open>
  The notebook \<^verbatim>\<open>GOES_RGB_Demo/GOES_RGB_Image.ipynb\<close> defines three functions:
  \<^verbatim>\<open>open_dataset\<close> (a remote catalogue lookup), \<^verbatim>\<open>interpolate_red_channel\<close> (the
  resampler) and \<^verbatim>\<open>make_RGB_data\<close>, whose lines 138 to 150 are the band combiner: clip,
  square root, weighted green, stack.

  Numbers. A NumPy sample is a 64-bit float. A finite float is modelled by the real
  number it denotes, so rounding and overflow are not part of the model; the three
  special values are kept, because comparisons and arithmetic treat them differently.
\<close>

subsection \<open>Samples\<close>

datatype sample = Fin real | PInf | NInf | NaN

text \<open>\<^verbatim>\<open>v <= c\<close> for a finite constant \<open>c\<close>: every comparison with NaN is false.\<close>

fun fp_le :: "sample \<Rightarrow> real \<Rightarrow> bool" where
  "fp_le (Fin v) c = (v \<le> c)"
| "fp_le NInf c = True"
| "fp_le PInf c = False"
| "fp_le NaN c = False"

text \<open>\<^verbatim>\<open>np.sqrt\<close> on one sample: a negative argument gives NaN (with a warning, no exception).\<close>

fun fp_sqrt :: "sample \<Rightarrow> sample" where
  "fp_sqrt (Fin v) = (if v < 0 then NaN else Fin (sqrt v))"
| "fp_sqrt PInf = PInf"
| "fp_sqrt NInf = NaN"
| "fp_sqrt NaN = NaN"

text \<open>\<^verbatim>\<open>v * c\<close> for a finite constant \<open>c\<close>.\<close>

fun fp_scale :: "sample \<Rightarrow> real \<Rightarrow> sample" where
  "fp_scale (Fin v) c = Fin (v * c)"
| "fp_scale PInf c = (if 0 < c then PInf else if c < 0 then NInf else NaN)"
| "fp_scale NInf c = (if 0 < c then NInf else if c < 0 then PInf else NaN)"
| "fp_scale NaN c = NaN"

fun fp_add :: "sample \<Rightarrow> sample \<Rightarrow> sample" where
  "fp_add (Fin a) (Fin b) = Fin (a + b)"
| "fp_add NaN _ = NaN"
| "fp_add _ NaN = NaN"
| "fp_add PInf NInf = NaN"
| "fp_add NInf PInf = NaN"
| "fp_add PInf _ = PInf"
| "fp_add _ PInf = PInf"
| "fp_add NInf _ = NInf"
| "fp_add _ NInf = NInf"

subsection \<open>Errors\<close>

text \<open>
  The exceptions that the notebook's code and the NumPy and SciPy calls it makes can
  raise, each with the name or the message that identifies the place. \<open>ServiceError\<close>
  stands for a failure of a remote or metadata call. The last three constructors are the
  error names of the specification; no definition below builds them.
\<close>

datatype error =
    TypeError
  | ValueError string
  | FitpackError
  | UnboundLocalError string
  | NameError string
  | ServiceError string
  | ShapeMismatchError
  | NonFiniteValueError
  | InvalidWeightsError

text \<open>Sequencing: an exception ends the computation, a value goes on to the next statement.\<close>

fun and_then :: "error + 'a \<Rightarrow> ('a \<Rightarrow> error + 'b) \<Rightarrow> error + 'b" where
  "and_then (Inl e) f = Inl e"
| "and_then (Inr v) f = f v"

subsection \<open>Arrays\<close>

text \<open>
  A one-dimensional array is a list of samples, a two-dimensional one a list of rows.
  An array without rows is the empty list, so its column count is not recorded.
\<close>

datatype ndarray = Arr1 "sample list" | Arr2 "sample list list"

fun rows_of :: "ndarray \<Rightarrow> sample list list" where
  "rows_of (Arr1 v) = [v]"
| "rows_of (Arr2 g) = g"

fun is_1d :: "ndarray \<Rightarrow> bool" where
  "is_1d (Arr1 v) = True"
| "is_1d (Arr2 g) = False"

definition ncols :: "'a list list \<Rightarrow> nat" where
  "ncols g = (case g of [] \<Rightarrow> 0 | r # _ \<Rightarrow> length r)"

definition shape2 :: "'a list list \<Rightarrow> nat \<times> nat" where
  "shape2 g = (length g, ncols g)"

text \<open>A list of rows is an array of shape \<open>(h, w)\<close> when it has \<open>h\<close> rows of length \<open>w\<close>.\<close>

definition has_shape :: "'a list list \<Rightarrow> nat \<Rightarrow> nat \<Rightarrow> bool" where
  "has_shape g h w = (length g = h \<and> list_all (\<lambda>r. length r = w) g)"

text \<open>
  The shape of an array as broadcasting and \<^verbatim>\<open>np.dstack\<close> see it: a one-dimensional
  array of length \<open>n\<close> counts as \<open>(1, n)\<close>.
\<close>

definition grid_shape :: "ndarray \<Rightarrow> nat \<times> nat" where
  "grid_shape a = shape2 (rows_of a)"

text \<open>
  Shapes of a red, a green and a blue band that lines 148 and 150 accept: red and blue
  have one shape, and each dimension of green is theirs or 1.
\<close>

definition stackable :: "nat \<times> nat \<Rightarrow> nat \<times> nat \<Rightarrow> nat \<times> nat \<Rightarrow> bool" where
  "stackable sr sg sb =
     (sr = sb \<and> (fst sg = fst sr \<or> fst sg = 1) \<and> (snd sg = snd sr \<or> snd sg = 1))"

fun amap :: "(sample \<Rightarrow> sample) \<Rightarrow> ndarray \<Rightarrow> ndarray" where
  "amap f (Arr1 v) = Arr1 (map f v)"
| "amap f (Arr2 g) = Arr2 (map (map f) g)"

text \<open>
  NumPy broadcasting of two dimensions: equal, or one of them is 1. A one-dimensional
  array of length \<open>n\<close> broadcasts as a single row.
\<close>

definition bdim :: "nat \<Rightarrow> nat \<Rightarrow> nat option" where
  "bdim m n = (if m = n then Some m else if m = 1 then Some n else if n = 1 then Some m else None)"

definition stretch :: "nat \<Rightarrow> 'a list \<Rightarrow> 'a list" where
  "stretch n xs = (if length xs = n then xs else replicate n (hd xs))"

definition broadcast_to :: "nat \<Rightarrow> nat \<Rightarrow> 'a list list \<Rightarrow> 'a list list" where
  "broadcast_to h w g = stretch h (map (stretch w) g)"

definition elementwise :: "(sample \<Rightarrow> sample \<Rightarrow> sample) \<Rightarrow> ndarray \<Rightarrow> ndarray \<Rightarrow> error + ndarray" where
  "elementwise f a b =
     (let ra = rows_of a; rb = rows_of b in
      case bdim (length ra) (length rb) of
        None \<Rightarrow> Inl (ValueError ''operands could not be broadcast together'')
      | Some h \<Rightarrow>
         (case bdim (ncols ra) (ncols rb) of
            None \<Rightarrow> Inl (ValueError ''operands could not be broadcast together'')
          | Some w \<Rightarrow>
              let z = map2 (map2 f) (broadcast_to h w ra) (broadcast_to h w rb)
              in Inr (if is_1d a \<and> is_1d b then Arr1 (hd z) else Arr2 z)))"

text \<open>
  \<^verbatim>\<open>np.dstack([a, b, c])\<close>: every array is first seen as \<open>(h, w, 1)\<close> (a one-dimensional
  one as \<open>(1, n, 1)\<close>), then the three are concatenated along the last axis, which needs
  equal \<open>h\<close> and \<open>w\<close>.
\<close>

definition dstack :: "ndarray \<Rightarrow> ndarray \<Rightarrow> ndarray \<Rightarrow> error + sample list list list" where
  "dstack a b c =
     (let ra = rows_of a; rb = rows_of b; rc = rows_of c in
      if shape2 ra = shape2 rb \<and> shape2 rb = shape2 rc
      then Inr (map (\<lambda>(p, q, r). map (\<lambda>(u, v, w). [u, v, w]) (zip p (zip q r))) (zip ra (zip rb rc)))
      else Inl (ValueError ''all the input array dimensions must match''))"

text \<open>\<^verbatim>\<open>a[::-1]\<close>: the first axis reversed.\<close>

fun reversed :: "ndarray \<Rightarrow> ndarray" where
  "reversed (Arr1 v) = Arr1 (rev v)"
| "reversed (Arr2 g) = Arr2 (rev g)"

subsection \<open>The band combiner: lines 138 to 150 of \<^verbatim>\<open>make_RGB_data\<close>\<close>

text \<open>
  \<^verbatim>\<open>a[np.where(a <= 0.0001)] = 1\<close> (the lines under "Clip out maxes"). The array is
  updated in place; the model returns the updated array.
\<close>

definition clip_out :: "ndarray \<Rightarrow> ndarray" where
  "clip_out a = amap (\<lambda>v. if fp_le v (1 / 10000) then Fin 1 else v) a"

text \<open>\<^verbatim>\<open>np.sqrt(a)\<close> (the lines under "Brightness Enhancement").\<close>

definition np_sqrt :: "ndarray \<Rightarrow> ndarray" where
  "np_sqrt a = amap fp_sqrt a"

text \<open>What the clipping and the square root together do to one sample.\<close>

definition enhanced :: "sample \<Rightarrow> sample" where
  "enhanced v = fp_sqrt (if fp_le v (1 / 10000) then Fin 1 else v)"

definition scale :: "ndarray \<Rightarrow> real \<Rightarrow> ndarray" where
  "scale a c = amap (\<lambda>v. fp_scale v c) a"

text \<open>
  \<^verbatim>\<open>green_data * 0.1 + blue_data * 0.45 + red_data * 0.45\<close> (line 148), with the three
  literals as the arguments \<open>wg\<close>, \<open>wb\<close>, \<open>wr\<close>, so that an edit of the literals can be
  discussed. The source's line is \<open>fake_green\<close>.
\<close>

definition weighted_green :: "real \<times> real \<times> real \<Rightarrow> ndarray \<Rightarrow> ndarray \<Rightarrow> ndarray \<Rightarrow> error + ndarray" where
  "weighted_green ws green blue red =
     (case ws of (wg, wb, wr) \<Rightarrow>
        and_then (elementwise fp_add (scale green wg) (scale blue wb)) (\<lambda>t.
        elementwise fp_add t (scale red wr)))"

definition weights :: "real \<times> real \<times> real" where
  "weights = (1 / 10, 45 / 100, 45 / 100)"

definition fake_green :: "ndarray \<Rightarrow> ndarray \<Rightarrow> ndarray \<Rightarrow> error + ndarray" where
  "fake_green green blue red = weighted_green weights green blue red"

text \<open>
  The local variables of \<^verbatim>\<open>make_RGB_data\<close> that the block reads. A name that the function
  assigns somewhere is local to it from its first line on; \<open>None\<close> is such a name before
  its first assignment, and reading it raises \<^verbatim>\<open>UnboundLocalError\<close>, a subclass of
  \<^verbatim>\<open>NameError\<close>.
\<close>

record locals =
  red_data :: "ndarray option"
  blue_data :: "ndarray option"
  green_data :: "ndarray option"

definition read_local :: "string \<Rightarrow> 'a option \<Rightarrow> error + 'a" where
  "read_local name v = (case v of None \<Rightarrow> Inl (UnboundLocalError name) | Some a \<Rightarrow> Inr a)"

text \<open>
  Lines 138 to 150, statement by statement, on the local variables; the result is
  \<^verbatim>\<open>rgb_data\<close>. \<open>band_combiner\<close> is the block with the source's literals.
\<close>

definition band_combiner_w :: "real \<times> real \<times> real \<Rightarrow> locals \<Rightarrow> error + sample list list list" where
  "band_combiner_w ws env =
     and_then (read_local ''red_data'' (red_data env)) (\<lambda>r0.
     let r1 = clip_out r0 in
     and_then (read_local ''blue_data'' (blue_data env)) (\<lambda>b0.
     let b1 = clip_out b0 in
     and_then (read_local ''green_data'' (green_data env)) (\<lambda>g0.
     let g1 = clip_out g0;
         r2 = np_sqrt r1;
         b2 = np_sqrt b1;
         g2 = np_sqrt g1
     in and_then (weighted_green ws g2 b2 r2) (\<lambda>g3.
        dstack r2 g3 b2))))"

definition band_combiner :: "locals \<Rightarrow> error + sample list list list" where
  "band_combiner env = band_combiner_w weights env"

subsection \<open>The resampler: \<^verbatim>\<open>interpolate_red_channel\<close>\<close>

text \<open>
  What the code reads of a dataset object: its coordinate axes \<^verbatim>\<open>.x\<close> and \<^verbatim>\<open>.y\<close>, its
  attribute \<^verbatim>\<open>start_date_time\<close>, and what \<^verbatim>\<open>np.asarray\<close> makes of the object itself. The
  last is a grid for an array-like channel, and \<^verbatim>\<open>TypeError\<close> for an
  \<^verbatim>\<open>xarray.Dataset\<close>, as in the run recorded in the notebook.
\<close>

record dataset =
  ds_x :: "real list"
  ds_y :: "real list"
  ds_values :: "error + real list list"
  start_date_time :: string

text \<open>
  Modelled from the spec: \<^verbatim>\<open>scipy.interpolate.interp2d\<close>, which lines 106 to 108 call, is
  a library routine and not part of the repository. The specification describes it as
  bilinear interpolation over the source grid, with a fill value outside the source's
  coordinate envelope instead of extrapolation. The model adds what the routine's
  documentation says of the order of coordinates: the source axes are put in increasing
  order (the grid's rows and columns with them), and the coordinates of a call are sorted
  before evaluation (\<^verbatim>\<open>assume_sorted=False\<close>), so that the result is in increasing order
  of both. A result with a single row is returned as a one-dimensional array.

  The fit needs at least two distinct coordinates on each axis; what the routine does
  otherwise is reported as \<open>FitpackError\<close>. Its scattered-data mode (taken when the
  number of samples is not \<open>len x * len y\<close>) is not modelled: a grid whose shape is not
  \<open>(len y, len x)\<close> is reported as \<open>ValueError\<close>. Coordinates and source samples are
  finite.

  The fitted interpolant: its knots in increasing order, the samples at the knots (row
  \<open>j\<close> at \<open>knots_y ! j\<close>, column \<open>i\<close> at \<open>knots_x ! i\<close>), and the fill value.
\<close>

record interpolant =
  knots_x :: "real list"
  knots_y :: "real list"
  node_values :: "real list list"
  fill_value :: real

text \<open>\<^verbatim>\<open>vs[np.argsort(ks)]\<close>: the values in increasing order of their coordinates.\<close>

definition reorder :: "real list \<Rightarrow> 'a list \<Rightarrow> 'a list" where
  "reorder ks vs = map snd (sort_key fst (zip ks vs))"

text \<open>
  Modelled from the spec: the constructor \<^verbatim>\<open>interp2d(x, y, z, fill_value=fill)\<close>. The
  third argument is what \<^verbatim>\<open>np.asarray\<close> makes of \<open>z\<close>, so its exception is raised here.
\<close>

definition interp2d :: "real list \<Rightarrow> real list \<Rightarrow> error + real list list \<Rightarrow> real \<Rightarrow> error + interpolant" where
  "interp2d x y z fill =
     and_then z (\<lambda>z.
       if \<not> (length z = length y \<and> list_all (\<lambda>row. length row = length x) z)
       then Inl (ValueError ''z must have shape (n, m)'')
       else
         let z1 = (if sorted x then z else map (reorder x) z);
             x1 = (if sorted x then x else sort x);
             z2 = (if sorted y then z1 else reorder y z1);
             y1 = (if sorted y then y else sort y)
         in if length x1 < 2 \<or> length y1 < 2 \<or> \<not> distinct x1 \<or> \<not> distinct y1
            then Inl FitpackError
            else Inr \<lparr>knots_x = x1, knots_y = y1, node_values = z2, fill_value = fill\<rparr>)"

text \<open>
  Modelled from the spec: piecewise linear interpolation of the values \<open>vs\<close> at the
  increasing knots \<open>ks\<close>, for a point \<open>q\<close> between the first and the last knot. The last
  equation is never reached from an interpolant that \<open>interp2d\<close> returned, which has two
  knots at least and as many values as knots.
\<close>

fun interp1 :: "real list \<Rightarrow> real list \<Rightarrow> real \<Rightarrow> real" where
  "interp1 (a # b # ks) (u # v # vs) q =
     (if q \<le> b \<or> ks = [] then u + (v - u) * ((q - a) / (b - a))
      else interp1 (b # ks) (v # vs) q)"
| "interp1 ks vs q = 0"

text \<open>
  Modelled from the spec: bilinear interpolation, linear along each row and then linear
  along the column of the results.
\<close>

definition bilinear :: "interpolant \<Rightarrow> real \<Rightarrow> real \<Rightarrow> real" where
  "bilinear f qx qy =
     interp1 (knots_y f) (map (\<lambda>row. interp1 (knots_x f) row qx) (node_values f)) qy"

text \<open>
  Modelled from the spec: outside the envelope means below the smallest or above the
  largest coordinate of the source, the first and the last knot.
\<close>

definition out_of_bounds :: "real list \<Rightarrow> real \<Rightarrow> bool" where
  "out_of_bounds ks q = (q < hd ks \<or> last ks < q)"

text \<open>
  Modelled from the spec: the value of the interpolant at one point, the fill value
  outside the envelope.
\<close>

definition evaluate :: "interpolant \<Rightarrow> real \<Rightarrow> real \<Rightarrow> real" where
  "evaluate f qx qy =
     (if out_of_bounds (knots_x f) qx \<or> out_of_bounds (knots_y f) qy then fill_value f
      else bilinear f qx qy)"

text \<open>
  Modelled from the spec: the call \<^verbatim>\<open>f(x, y)\<close>. Row \<open>j\<close> of the result belongs to the
  \<open>j\<close>-th smallest \<open>y\<close>, column \<open>i\<close> to the \<open>i\<close>-th smallest \<open>x\<close>.
\<close>

definition interp2d_call :: "interpolant \<Rightarrow> real list \<Rightarrow> real list \<Rightarrow> error + ndarray" where
  "interp2d_call f x y =
     (let xs = sort x; ys = sort y in
      if xs = [] \<or> ys = [] then Inl (ValueError ''Invalid input data'')
      else
        let z = map (\<lambda>qy. map (\<lambda>qx. Fin (evaluate f qx qy)) xs) ys
        in Inr (if length z = 1 then Arr1 (hd z) else Arr2 z))"

text \<open>Lines 99 to 109 of the notebook, with the row reversal \<^verbatim>\<open>[::-1]\<close> of line 109.\<close>

definition interpolate_red_channel :: "dataset \<Rightarrow> dataset \<Rightarrow> error + (real list \<times> real list \<times> ndarray)" where
  "interpolate_red_channel red_ds resampled_ds =
     (let x_new = ds_x resampled_ds;
          y_new = ds_y resampled_ds
      in and_then (interp2d (ds_x red_ds) (ds_y red_ds) (ds_values red_ds) 0) (\<lambda>f.
         and_then (interp2d_call f x_new y_new) (\<lambda>red_interpolated.
         Inr (x_new, y_new, reversed red_interpolated))))"

subsection \<open>\<^verbatim>\<open>make_RGB_data\<close>\<close>

text \<open>
  The calls that leave the notebook: \<^verbatim>\<open>open_dataset\<close> (lines 82 to 90 are a catalogue
  request and a remote access, by date, channel, region and index), the MetPy accessors
  \<^verbatim>\<open>parse_cf\<close> and \<^verbatim>\<open>cartopy_crs\<close>, and \<^verbatim>\<open>datetime.strptime\<close>. Each returns a value or
  raises. \<open>proj_var\<close> is the notebook's global of that name, which the function reads in
  its \<^verbatim>\<open>return\<close> and never assigns: \<open>None\<close> when no cell has bound it.
\<close>

record services =
  open_dataset :: "nat \<Rightarrow> nat \<Rightarrow> string \<Rightarrow> int \<Rightarrow> error + dataset"
  parse_cf :: "dataset \<Rightarrow> string \<Rightarrow> error + dataset"
  cartopy_crs :: "dataset \<Rightarrow> error + string"
  strptime :: "string \<Rightarrow> string \<Rightarrow> error + nat"
  proj_var :: "string option"

definition read_global :: "string \<Rightarrow> 'a option \<Rightarrow> error + 'a" where
  "read_global name v = (case v of None \<Rightarrow> Inl (NameError name) | Some a \<Rightarrow> Inr a)"

text \<open>Lines 122 to 135: the state in which the clipping step is reached.\<close>

definition load_and_resample :: "services \<Rightarrow> nat \<Rightarrow> string \<Rightarrow> int \<Rightarrow> error + (dataset \<times> ndarray)" where
  "load_and_resample sv date region idx =
     (let red_channel = 2; green_channel = 3; blue_channel = 1 in
      and_then (open_dataset sv date red_channel region idx) (\<lambda>red_ds.
      and_then (open_dataset sv date blue_channel region idx) (\<lambda>blue_ds.
      and_then (open_dataset sv date green_channel region idx) (\<lambda>green_ds.
      and_then (parse_cf sv red_ds ''Sectorized_CMI'') (\<lambda>red_dat.
      and_then (parse_cf sv blue_ds ''Sectorized_CMI'') (\<lambda>blue_dat.
      and_then (parse_cf sv green_ds ''Sectorized_CMI'') (\<lambda>green_dat.
      and_then (cartopy_crs sv green_dat) (\<lambda>proj.
      and_then (interpolate_red_channel red_ds blue_ds) (\<lambda>(x, y, red).
      Inr (green_ds, red))))))))))"

text \<open>Lines 118 to 157.\<close>

definition make_RGB_data ::
  "services \<Rightarrow> nat \<Rightarrow> string \<Rightarrow> int \<Rightarrow>
     error + (nat \<times> real list \<times> real list \<times> string \<times> sample list list list)" where
  "make_RGB_data sv date region idx =
     and_then (load_and_resample sv date region idx) (\<lambda>(green_ds, red).
     and_then (band_combiner \<lparr>red_data = Some red, blue_data = None, green_data = None\<rparr>) (\<lambda>rgb_data.
     let x = ds_x green_ds;
         y = ds_y green_ds
     in and_then (strptime sv (start_date_time green_ds) ''%Y%j%H%M%S'') (\<lambda>time.
        and_then (read_global ''proj_var'' (proj_var sv)) (\<lambda>pv.
        Inr (time, x, y, pv, rgb_data)))))"

subsection \<open>Concrete inputs\<close>

text \<open>A band of shape \<open>(h, w)\<close> with one value everywhere.\<close>

definition constant_band :: "nat \<Rightarrow> nat \<Rightarrow> real \<Rightarrow> ndarray" where
  "constant_band h w v = Arr2 (replicate h (replicate w (Fin v)))"

text \<open>
  A channel on a 2 by 2 grid whose \<open>y\<close> axis decreases, as the axes of the satellite
  files do, and services that return it for every request.
\<close>

definition demo_channel :: dataset where
  "demo_channel = \<lparr>ds_x = [0, 1], ds_y = [1, 0], ds_values = Inr [[1, 2], [3, 4]],
     start_date_time = ''2018001120000''\<rparr>"

definition demo_services :: services where
  "demo_services = \<lparr>open_dataset = (\<lambda>date channel region idx. Inr demo_channel),
     parse_cf = (\<lambda>ds name. Inr ds),
     cartopy_crs = (\<lambda>da. Inr ''geos''),
     strptime = (\<lambda>s fmt. Inr 0),
     proj_var = None\<rparr>"

definition demo_red :: "sample list list" where
  "demo_red = [[Fin 1, Fin 2], [Fin 3, Fin 4]]"

definition demo_green :: "sample list list" where
  "demo_green = [[Fin 5, Fin 6], [Fin 7, Fin 8]]"

definition demo_blue :: "sample list list" where
  "demo_blue = [[Fin 9, Fin 10], [Fin 11, Fin 12]]"

text \<open>Bands for the examples of the band combiner.\<close>

definition scenario :: "nat \<Rightarrow> nat \<Rightarrow> locals" where
  "scenario h w = \<lparr>red_data = Some (constant_band h w 4), blue_data = Some (constant_band h w 16),
     green_data = Some (constant_band h w 0)\<rparr>"

definition demo_band :: "sample list list" where
  "demo_band = [[Fin 0, Fin (1 / 10000)], [Fin (1 / 5000), NaN]]"

definition nan_red :: locals where
  "nan_red = \<lparr>red_data = Some (Arr2 [[NaN]]), blue_data = Some (Arr2 [[Fin 16]]),
     green_data = Some (Arr2 [[Fin 4]])\<rparr>"

definition small_green :: locals where
  "small_green = \<lparr>red_data = Some (constant_band 2 2 4), blue_data = Some (constant_band 2 2 16),
     green_data = Some (constant_band 1 1 4)\<rparr>"

definition four_and_three :: locals where
  "four_and_three = \<lparr>red_data = Some (constant_band 4 4 4), blue_data = Some (constant_band 3 3 16),
     green_data = Some (constant_band 4 4 0)\<rparr>"

definition odd_green :: locals where
  "odd_green = \<lparr>red_data = Some (constant_band 4 4 4), blue_data = Some (constant_band 4 4 16),
     green_data = Some (constant_band 3 3 0)\<rparr>"

definition dark_corner :: "sample list list" where
  "dark_corner = [[Fin 0, Fin 4], [Fin 9, Fin (1 / 10000)]]"

definition dark_corner_2 :: "sample list list" where
  "dark_corner_2 = [[NInf, Fin 4], [Fin 9, Fin (- 3)]]"

text \<open>Channels and targets for the examples of the resampler.\<close>

definition asc_channel :: dataset where
  "asc_channel = \<lparr>ds_x = [0, 1], ds_y = [0, 1], ds_values = Inr [[1, 2], [3, 4]],
     start_date_time = ''2018001120000''\<rparr>"

definition asc_target :: dataset where
  "asc_target = \<lparr>ds_x = [0, 1 / 2], ds_y = [0, 1], ds_values = Inr [[0, 0], [0, 0]],
     start_date_time = ''2018001120000''\<rparr>"

definition row_target :: dataset where
  "row_target = \<lparr>ds_x = [0, 1 / 2], ds_y = [0], ds_values = Inr [[0, 0]],
     start_date_time = ''2018001120000''\<rparr>"

definition demo_target :: dataset where
  "demo_target = \<lparr>ds_x = [0, 1 / 2, 2], ds_y = [1, 1 / 2], ds_values = Inr [[0, 0, 0], [0, 0, 0]],
     start_date_time = ''2018001120000''\<rparr>"

definition demo_interpolant :: interpolant where
  "demo_interpolant = \<lparr>knots_x = [0, 1], knots_y = [0, 1], node_values = [[3, 4], [1, 2]],
     fill_value = 0\<rparr>"

section \<open>Properties\<close>

subsection \<open>Shapes and elementwise operations\<close>

lemma has_shape_row: "has_shape g h w \<Longrightarrow> i < h \<Longrightarrow> length (g ! i) = w"
  by (simp add: has_shape_def list_all_length)

lemma has_shape_ncols: "has_shape g h w \<Longrightarrow> 0 < h \<Longrightarrow> ncols g = w"
  by (cases g) (auto simp: has_shape_def ncols_def)

lemma has_shape_shape2: "has_shape g h w \<Longrightarrow> shape2 g = (h, if h = 0 then 0 else w)"
  by (cases g) (auto simp: has_shape_def ncols_def shape2_def)

lemma has_shape_map: "has_shape (map (map f) g) h w = has_shape g h w"
  by (simp add: has_shape_def list_all_length)

lemma shape2_map: "shape2 (map (map f) g) = shape2 g"
  by (cases g) (simp_all add: shape2_def ncols_def)

lemma stretch_same: "length xs = n \<Longrightarrow> stretch n xs = xs"
  by (simp add: stretch_def)

lemma broadcast_to_same:
  assumes "has_shape g h w"
  shows "broadcast_to h (ncols g) g = g"
proof -
  have "map (stretch (ncols g)) g = g"
  proof (rule map_idI)
    fix r assume r: "r \<in> set g"
    then have "0 < h" using assms by (cases g) (auto simp: has_shape_def)
    then have "ncols g = w" using assms by (rule has_shape_ncols [rotated])
    moreover have "length r = w" using r assms by (simp add: has_shape_def list_all_iff)
    ultimately show "stretch (ncols g) r = r" by (simp add: stretch_same)
  qed
  then show ?thesis using assms by (simp add: broadcast_to_def stretch_same has_shape_def)
qed

lemma elementwise_same_shape:
  assumes a: "has_shape a h w" and b: "has_shape b h w"
  shows "elementwise f (Arr2 a) (Arr2 b) = Inr (Arr2 (map2 (map2 f) a b))"
proof -
  have len: "length a = h" "length b = h" using a b by (simp_all add: has_shape_def)
  have nc: "ncols a = ncols b"
    using has_shape_shape2 [OF a] has_shape_shape2 [OF b] by (simp add: shape2_def)
  have "broadcast_to h (ncols a) a = a" by (rule broadcast_to_same [OF a])
  moreover have "broadcast_to h (ncols a) b = b" using broadcast_to_same [OF b] nc by simp
  ultimately show ?thesis
    using len nc by (simp add: elementwise_def bdim_def)
qed

lemma has_shape_map2:
  assumes "has_shape a h w" "has_shape b h w"
  shows "has_shape (map2 (map2 f) a b) h w"
  using assms by (simp add: has_shape_def list_all_length)

lemma nth_map2_grid:
  assumes "has_shape a h w" "has_shape b h w" "i < h" "j < w"
  shows "map2 (map2 f) a b ! i ! j = f (a ! i ! j) (b ! i ! j)"
  using assms by (simp add: has_shape_def list_all_length)

lemma dstack_same_shape:
  assumes r: "has_shape r h w" and g: "has_shape g h w" and b: "has_shape b h w"
  shows "dstack (Arr2 r) (Arr2 g) (Arr2 b)
     = Inr (map (\<lambda>(p, q, r). map (\<lambda>(u, v, w). [u, v, w]) (zip p (zip q r))) (zip r (zip g b)))"
  using has_shape_shape2 [OF r] has_shape_shape2 [OF g] has_shape_shape2 [OF b]
  by (simp add: dstack_def)

lemma nth_stacked:
  assumes "has_shape r h w" "has_shape g h w" "has_shape b h w" "i < h" "j < w"
  shows "map (\<lambda>(p, q, r). map (\<lambda>(u, v, w). [u, v, w]) (zip p (zip q r))) (zip r (zip g b)) ! i ! j
     = [r ! i ! j, g ! i ! j, b ! i ! j]"
  using assms by (simp add: has_shape_def list_all_length)

lemma has_shape_stacked:
  assumes "has_shape r h w" "has_shape g h w" "has_shape b h w"
  shows "has_shape (map (\<lambda>(p, q, r). map (\<lambda>(u, v, w). [u, v, w]) (zip p (zip q r))) (zip r (zip g b))) h w"
  using assms by (simp add: has_shape_def list_all_length)

lemma demo_shapes: "has_shape demo_red 2 2" "has_shape demo_green 2 2" "has_shape demo_blue 2 2"
  by (simp_all add: has_shape_def demo_red_def demo_green_def demo_blue_def)

subsection \<open>Unbound band variables\<close>

lemma band_combiner_w_blue_unbound:
  "band_combiner_w ws \<lparr>red_data = Some r, blue_data = None, green_data = g\<rparr>
     = Inl (UnboundLocalError ''blue_data'')"
  by (simp add: band_combiner_w_def read_local_def)

lemma band_combiner_w_green_unbound:
  "band_combiner_w ws \<lparr>red_data = Some r, blue_data = Some b, green_data = None\<rparr>
     = Inl (UnboundLocalError ''green_data'')"
  by (simp add: band_combiner_w_def read_local_def)

lemma demo_loads:
  "load_and_resample demo_services 0 ''Mesoscale-1'' (- 2)
     = Inr (demo_channel, Arr2 [[Fin 1, Fin 2], [Fin 3, Fin 4]])"
  by (simp add: load_and_resample_def demo_services_def demo_channel_def
      interpolate_red_channel_def interp2d_def interp2d_call_def evaluate_def
      out_of_bounds_def bilinear_def reorder_def Let_def)

text \<open>
  The run recorded in the notebook: \<^verbatim>\<open>open_dataset\<close> returns an \<^verbatim>\<open>xarray.Dataset\<close>,
  which NumPy refuses to convert, and the call ends with \<^verbatim>\<open>TypeError\<close> on line 135.
\<close>

lemma recorded_run:
  "ds_values red_ds = Inl TypeError \<Longrightarrow> interpolate_red_channel red_ds resampled_ds = Inl TypeError"
  by (simp add: interpolate_red_channel_def interp2d_def)

lemma recorded_run_make_RGB_data:
  assumes "open_dataset sv date 2 region idx = Inr red_ds" "ds_values red_ds = Inl TypeError"
    and "open_dataset sv date 1 region idx = Inr blue_ds"
    and "open_dataset sv date 3 region idx = Inr green_ds"
    and "parse_cf sv red_ds ''Sectorized_CMI'' = Inr red_dat"
    and "parse_cf sv blue_ds ''Sectorized_CMI'' = Inr blue_dat"
    and "parse_cf sv green_ds ''Sectorized_CMI'' = Inr green_dat"
    and "cartopy_crs sv green_dat = Inr proj"
  shows "make_RGB_data sv date region idx = Inl TypeError"
  using assms by (simp add: make_RGB_data_def load_and_resample_def recorded_run)

text \<open>
  Claim C4. \<^verbatim>\<open>make_RGB_data\<close> returns a composite for no input: every call ends in an
  exception. Whenever lines 122 to 135 complete, so that the clipping step is reached with
  \<^verbatim>\<open>red_data\<close> bound, the call fails there with \<^verbatim>\<open>UnboundLocalError\<close> (a
  \<^verbatim>\<open>NameError\<close>) for \<^verbatim>\<open>blue_data\<close>, which is read on line 139 and first assigned on line
  144. \<^verbatim>\<open>green_data\<close> has the same defect: with \<^verbatim>\<open>blue_data\<close> bound, line 140 fails for it.
\<close>

theorem make_RGB_data_never_returns:
  "(\<exists>e. make_RGB_data sv date region idx = Inl e) \<and>
   (\<forall>green_ds red. load_and_resample sv date region idx = Inr (green_ds, red) \<longrightarrow>
      make_RGB_data sv date region idx = Inl (UnboundLocalError ''blue_data'')) \<and>
   (\<forall>r b. band_combiner \<lparr>red_data = Some r, blue_data = Some b, green_data = None\<rparr>
      = Inl (UnboundLocalError ''green_data''))"
proof (intro conjI allI impI)
  show "\<exists>e. make_RGB_data sv date region idx = Inl e"
  proof (cases "load_and_resample sv date region idx")
    case (Inl e)
    then show ?thesis by (simp add: make_RGB_data_def)
  next
    case (Inr st)
    then show ?thesis
      by (cases st) (simp add: make_RGB_data_def band_combiner_def band_combiner_w_blue_unbound)
  qed
next
  fix green_ds red
  assume "load_and_resample sv date region idx = Inr (green_ds, red)"
  then show "make_RGB_data sv date region idx = Inl (UnboundLocalError ''blue_data'')"
    by (simp add: make_RGB_data_def band_combiner_def band_combiner_w_blue_unbound)
next
  fix r b
  show "band_combiner \<lparr>red_data = Some r, blue_data = Some b, green_data = None\<rparr>
      = Inl (UnboundLocalError ''green_data'')"
    by (simp add: band_combiner_def band_combiner_w_green_unbound)
qed

theorem make_RGB_data_never_returns_witness:
  "load_and_resample demo_services 0 ''Mesoscale-1'' (- 2)
     = Inr (demo_channel, Arr2 [[Fin 1, Fin 2], [Fin 3, Fin 4]]) \<and>
   make_RGB_data demo_services 0 ''Mesoscale-1'' (- 2) = Inl (UnboundLocalError ''blue_data'')"
  using make_RGB_data_never_returns [of demo_services 0 "''Mesoscale-1''" "- 2"] demo_loads
  by blast

subsection \<open>Stacking\<close>

text \<open>
  Claim C5. For three bands of one shape \<open>(h, w)\<close>, \<^verbatim>\<open>np.dstack\<close> returns an array of
  shape \<open>(h, w, 3)\<close> whose pixel \<open>(i, j)\<close> is the red, the green and the blue sample of
  that position, in this order and unchanged: no value is clipped to a range.
\<close>

theorem dstack_channel_last:
  assumes "has_shape r h w" "has_shape g h w" "has_shape b h w"
  shows "\<exists>c. dstack (Arr2 r) (Arr2 g) (Arr2 b) = Inr c \<and> has_shape c h w \<and>
           (\<forall>i<h. \<forall>j<w. c ! i ! j = [r ! i ! j, g ! i ! j, b ! i ! j])"
proof -
  let ?c = "map (\<lambda>(p, q, r). map (\<lambda>(u, v, w). [u, v, w]) (zip p (zip q r))) (zip r (zip g b))"
  have "dstack (Arr2 r) (Arr2 g) (Arr2 b) = Inr ?c" by (rule dstack_same_shape [OF assms])
  moreover have "has_shape ?c h w" by (rule has_shape_stacked [OF assms])
  moreover have "\<forall>i<h. \<forall>j<w. ?c ! i ! j = [r ! i ! j, g ! i ! j, b ! i ! j]"
    using nth_stacked [OF assms] by blast
  ultimately show ?thesis by blast
qed

theorem dstack_channel_last_witness:
  "has_shape demo_red 2 2 \<and> has_shape demo_green 2 2 \<and> has_shape demo_blue 2 2 \<and>
   (\<exists>c. dstack (Arr2 demo_red) (Arr2 demo_green) (Arr2 demo_blue) = Inr c \<and> has_shape c 2 2 \<and>
      c ! 0 ! 0 = [Fin 1, Fin 5, Fin 9] \<and> c ! 1 ! 0 = [Fin 3, Fin 7, Fin 11])"
proof -
  obtain c where c: "dstack (Arr2 demo_red) (Arr2 demo_green) (Arr2 demo_blue) = Inr c"
      "has_shape c 2 2"
      "\<forall>i<2. \<forall>j<2. c ! i ! j = [demo_red ! i ! j, demo_green ! i ! j, demo_blue ! i ! j]"
    using dstack_channel_last [OF demo_shapes] by blast
  have "c ! 0 ! 0 = [Fin 1, Fin 5, Fin 9]" "c ! 1 ! 0 = [Fin 3, Fin 7, Fin 11]"
    using c(3) by (simp_all add: demo_red_def demo_green_def demo_blue_def)
  then show ?thesis using c(1,2) demo_shapes by blast
qed

subsection \<open>The band combiner on bands of one shape\<close>

lemma enhance_grid:
  "np_sqrt (clip_out (Arr2 g)) = Arr2 (map (map enhanced) g)"
  by (simp add: np_sqrt_def clip_out_def enhanced_def comp_def)

lemma weighted_green_same_shape:
  assumes g: "has_shape g h w" and b: "has_shape b h w" and r: "has_shape r h w"
  shows "\<exists>z. weighted_green (wg, wb, wr) (Arr2 g) (Arr2 b) (Arr2 r) = Inr (Arr2 z) \<and>
           has_shape z h w \<and>
           (\<forall>i<h. \<forall>j<w. z ! i ! j =
              fp_add (fp_add (fp_scale (g ! i ! j) wg) (fp_scale (b ! i ! j) wb))
                     (fp_scale (r ! i ! j) wr))"
proof -
  let ?sg = "map (map (\<lambda>v. fp_scale v wg)) g"
  let ?sb = "map (map (\<lambda>v. fp_scale v wb)) b"
  let ?sr = "map (map (\<lambda>v. fp_scale v wr)) r"
  let ?t = "map2 (map2 fp_add) ?sg ?sb"
  let ?z = "map2 (map2 fp_add) ?t ?sr"
  have sg: "has_shape ?sg h w" and sb: "has_shape ?sb h w" and sr: "has_shape ?sr h w"
    using g b r by (simp_all only: has_shape_map)
  have t: "has_shape ?t h w" by (rule has_shape_map2 [OF sg sb])
  have z: "has_shape ?z h w" by (rule has_shape_map2 [OF t sr])
  have e1: "elementwise fp_add (Arr2 ?sg) (Arr2 ?sb) = Inr (Arr2 ?t)"
    by (rule elementwise_same_shape [OF sg sb])
  have e2: "elementwise fp_add (Arr2 ?t) (Arr2 ?sr) = Inr (Arr2 ?z)"
    by (rule elementwise_same_shape [OF t sr])
  have run: "weighted_green (wg, wb, wr) (Arr2 g) (Arr2 b) (Arr2 r) = Inr (Arr2 ?z)"
    by (simp add: weighted_green_def scale_def e1 e2)
  have px: "?z ! i ! j = fp_add (fp_add (fp_scale (g ! i ! j) wg) (fp_scale (b ! i ! j) wb))
                     (fp_scale (r ! i ! j) wr)" if "i < h" "j < w" for i j
  proof -
    have "?z ! i ! j = fp_add (?t ! i ! j) (?sr ! i ! j)"
      by (rule nth_map2_grid [OF t sr that])
    also have "?t ! i ! j = fp_add (?sg ! i ! j) (?sb ! i ! j)"
      by (rule nth_map2_grid [OF sg sb that])
    finally show ?thesis
      using that g b r by (simp add: has_shape_def list_all_length)
  qed
  show ?thesis using run z px by blast
qed

lemma band_combiner_w_same_shape:
  assumes r: "has_shape r h w" and g: "has_shape g h w" and b: "has_shape b h w"
  shows "\<exists>c. band_combiner_w (wg, wb, wr)
               \<lparr>red_data = Some (Arr2 r), blue_data = Some (Arr2 b), green_data = Some (Arr2 g)\<rparr> = Inr c \<and>
           has_shape c h w \<and>
           (\<forall>i<h. \<forall>j<w. c ! i ! j =
              [enhanced (r ! i ! j),
               fp_add (fp_add (fp_scale (enhanced (g ! i ! j)) wg) (fp_scale (enhanced (b ! i ! j)) wb))
                      (fp_scale (enhanced (r ! i ! j)) wr),
               enhanced (b ! i ! j)])"
proof -
  let ?r = "map (map enhanced) r" and ?g = "map (map enhanced) g" and ?b = "map (map enhanced) b"
  have er: "has_shape ?r h w" and eg: "has_shape ?g h w" and eb: "has_shape ?b h w"
    using r g b by (simp_all only: has_shape_map)
  obtain z where z: "weighted_green (wg, wb, wr) (Arr2 ?g) (Arr2 ?b) (Arr2 ?r) = Inr (Arr2 z)"
      "has_shape z h w"
      "\<forall>i<h. \<forall>j<w. z ! i ! j =
              fp_add (fp_add (fp_scale (?g ! i ! j) wg) (fp_scale (?b ! i ! j) wb))
                     (fp_scale (?r ! i ! j) wr)"
    using weighted_green_same_shape [OF eg eb er] by blast
  obtain c where c: "dstack (Arr2 ?r) (Arr2 z) (Arr2 ?b) = Inr c" "has_shape c h w"
      "\<forall>i<h. \<forall>j<w. c ! i ! j = [?r ! i ! j, z ! i ! j, ?b ! i ! j]"
    using dstack_same_shape [OF er z(2) eb] has_shape_stacked [OF er z(2) eb]
      nth_stacked [OF er z(2) eb] by blast
  have run: "band_combiner_w (wg, wb, wr)
               \<lparr>red_data = Some (Arr2 r), blue_data = Some (Arr2 b), green_data = Some (Arr2 g)\<rparr> = Inr c"
    by (simp add: band_combiner_w_def read_local_def enhance_grid z(1) c(1))
  have "c ! i ! j = [enhanced (r ! i ! j),
               fp_add (fp_add (fp_scale (enhanced (g ! i ! j)) wg) (fp_scale (enhanced (b ! i ! j)) wb))
                      (fp_scale (enhanced (r ! i ! j)) wr),
               enhanced (b ! i ! j)]" if "i < h" "j < w" for i j
    using that c(3) z(3) r g b by (simp add: has_shape_def list_all_length)
  then show ?thesis using run c(2) by blast
qed

lemma sqrt_4: "sqrt 4 = 2"
  using real_sqrt_abs [of 2] by simp

lemma sqrt_16: "sqrt 16 = 4"
  using real_sqrt_abs [of 4] by simp

lemma enhanced_values:
  "enhanced (Fin 4) = Fin 2" "enhanced (Fin 16) = Fin 4" "enhanced (Fin 0) = Fin 1"
  by (simp_all add: enhanced_def sqrt_4 sqrt_16)

lemma enhanced_fill: "fp_le v (1 / 10000) \<Longrightarrow> enhanced v = Fin 1"
  by (simp add: enhanced_def)

lemma enhanced_never_zero: "enhanced v \<noteq> Fin 0"
  by (cases v) (auto simp: enhanced_def)

lemma enhanced_nonfinite: "enhanced NaN = NaN" "enhanced PInf = PInf"
  by (simp_all add: enhanced_def)

lemma constant_grid:
  assumes "has_shape c h w" "\<forall>i<h. \<forall>j<w. c ! i ! j = p"
  shows "c = replicate h (replicate w p)"
proof (rule nth_equalityI)
  show "length c = length (replicate h (replicate w p))"
    using assms(1) by (simp add: has_shape_def)
next
  fix i assume "i < length c"
  then have i: "i < h" using assms(1) by (simp add: has_shape_def)
  have "c ! i = replicate w p"
  proof (rule nth_equalityI)
    show "length (c ! i) = length (replicate w p)"
      using has_shape_row [OF assms(1) i] by simp
  next
    fix j assume "j < length (c ! i)"
    then have "j < w" using has_shape_row [OF assms(1) i] by simp
    then show "c ! i ! j = replicate w p ! j" using assms(2) i by simp
  qed
  then show "c ! i = replicate h (replicate w p) ! i" using i by simp
qed

lemma has_shape_replicate: "has_shape (replicate h (replicate w v)) h w"
  by (simp add: has_shape_def list_all_length)

lemmas run_defs = band_combiner_def band_combiner_w_def read_local_def clip_out_def np_sqrt_def
  weighted_green_def weights_def elementwise_def scale_def bdim_def ncols_def broadcast_to_def
  stretch_def dstack_def shape2_def constant_band_def Let_def

lemma elementwise_error:
  "elementwise f a b = Inl e \<Longrightarrow> e = ValueError ''operands could not be broadcast together''"
  by (auto simp: elementwise_def Let_def split: option.splits)

lemma weighted_green_error:
  assumes "weighted_green ws g b r = Inl e"
  shows "e = ValueError ''operands could not be broadcast together''"
proof -
  obtain wg wb wr where ws: "ws = (wg, wb, wr)" by (cases ws) auto
  show ?thesis
  proof (cases "elementwise fp_add (scale g wg) (scale b wb)")
    case (Inl e')
    then show ?thesis using assms ws elementwise_error [OF Inl] by (simp add: weighted_green_def)
  next
    case (Inr t)
    then have "elementwise fp_add t (scale r wr) = Inl e"
      using assms ws by (simp add: weighted_green_def)
    then show ?thesis by (rule elementwise_error)
  qed
qed

lemma dstack_error:
  "dstack a b c = Inl e \<Longrightarrow> e = ValueError ''all the input array dimensions must match''"
  by (auto simp: dstack_def Let_def split: if_splits)

lemma dstack_shape_mismatch:
  "shape2 (rows_of a) \<noteq> shape2 (rows_of c) \<Longrightarrow>
   dstack a b c = Inl (ValueError ''all the input array dimensions must match'')"
  by (auto simp: dstack_def Let_def)

lemma and_then_Inl: "and_then x f = Inl e \<Longrightarrow> x = Inl e \<or> (\<exists>v. x = Inr v \<and> f v = Inl e)"
  by (cases x) auto

lemma band_combiner_w_error:
  assumes "band_combiner_w ws env = Inl e"
  shows "e \<in> {UnboundLocalError ''red_data'', UnboundLocalError ''blue_data'',
              UnboundLocalError ''green_data'',
              ValueError ''operands could not be broadcast together'',
              ValueError ''all the input array dimensions must match''}"
proof (cases "red_data env")
  case None
  then show ?thesis using assms by (simp add: band_combiner_w_def read_local_def)
next
  case r: (Some r)
  show ?thesis
  proof (cases "blue_data env")
    case None
    then show ?thesis using assms r by (simp add: band_combiner_w_def read_local_def)
  next
    case b: (Some b)
    show ?thesis
    proof (cases "green_data env")
      case None
      then show ?thesis using assms r b by (simp add: band_combiner_w_def read_local_def)
    next
      case g: (Some g)
      let ?r = "np_sqrt (clip_out r)" and ?b = "np_sqrt (clip_out b)" and ?g = "np_sqrt (clip_out g)"
      have run: "and_then (weighted_green ws ?g ?b ?r) (\<lambda>g3. dstack ?r g3 ?b) = Inl e"
        using assms r b g by (simp add: band_combiner_w_def read_local_def Let_def)
      from and_then_Inl [OF run] show ?thesis
      proof
        assume "weighted_green ws ?g ?b ?r = Inl e"
        then show ?thesis using weighted_green_error by blast
      next
        assume "\<exists>v. weighted_green ws ?g ?b ?r = Inr v \<and> dstack ?r v ?b = Inl e"
        then show ?thesis using dstack_error by blast
      qed
    qed
  qed
qed

lemma four_and_three_fails:
  "band_combiner four_and_three = Inl (ValueError ''operands could not be broadcast together'')"
  by (simp add: four_and_three_def run_defs numeral_eq_Suc)

subsection \<open>Clipping\<close>

text \<open>
  Claim C2. The clipping step changes a band at exactly the positions whose sample is at
  most \<open>1e-4\<close>, where it writes 1; the shape and every other sample stay as they are
  (NaN compares false and stays). The mask of a band is computed from that band: in the
  combiner each of the three bands goes through \<open>clip_out\<close> on its own.
\<close>

theorem clip_out_pointwise:
  "(\<exists>g'. clip_out (Arr2 g) = Arr2 g' \<and> length g' = length g \<and>
      (\<forall>i<length g. length (g' ! i) = length (g ! i) \<and>
         (\<forall>j<length (g ! i). g' ! i ! j = (if fp_le (g ! i ! j) (1 / 10000) then Fin 1 else g ! i ! j)))) \<and>
   band_combiner \<lparr>red_data = Some r, blue_data = Some b, green_data = Some g0\<rparr>
     = and_then (fake_green (np_sqrt (clip_out g0)) (np_sqrt (clip_out b)) (np_sqrt (clip_out r)))
         (\<lambda>g3. dstack (np_sqrt (clip_out r)) g3 (np_sqrt (clip_out b)))"
proof (rule conjI)
  show "\<exists>g'. clip_out (Arr2 g) = Arr2 g' \<and> length g' = length g \<and>
      (\<forall>i<length g. length (g' ! i) = length (g ! i) \<and>
         (\<forall>j<length (g ! i). g' ! i ! j = (if fp_le (g ! i ! j) (1 / 10000) then Fin 1 else g ! i ! j)))"
    by (simp add: clip_out_def)
next
  show "band_combiner \<lparr>red_data = Some r, blue_data = Some b, green_data = Some g0\<rparr>
     = and_then (fake_green (np_sqrt (clip_out g0)) (np_sqrt (clip_out b)) (np_sqrt (clip_out r)))
         (\<lambda>g3. dstack (np_sqrt (clip_out r)) g3 (np_sqrt (clip_out b)))"
    by (simp add: band_combiner_def band_combiner_w_def read_local_def fake_green_def Let_def)
qed

theorem clip_out_pointwise_witness:
  "\<exists>g'. clip_out (Arr2 demo_band) = Arr2 g' \<and> length g' = 2 \<and>
      g' ! 0 = [Fin 1, Fin 1] \<and> g' ! 1 = [Fin (1 / 5000), NaN]"
proof -
  obtain g' where g': "clip_out (Arr2 demo_band) = Arr2 g'" "length g' = length demo_band"
     "\<forall>i<length demo_band. length (g' ! i) = length (demo_band ! i) \<and>
         (\<forall>j<length (demo_band ! i). g' ! i ! j =
            (if fp_le (demo_band ! i ! j) (1 / 10000) then Fin 1 else demo_band ! i ! j))"
    using clip_out_pointwise [of demo_band] by blast
  have l: "length demo_band = 2" "length (demo_band ! 0) = 2" "length (demo_band ! 1) = 2"
    by (simp_all add: demo_band_def)
  have r0: "length (g' ! 0) = 2" "g' ! 0 ! 0 = Fin 1" "g' ! 0 ! 1 = Fin 1"
    using g'(3) l by (auto simp: demo_band_def)
  have r1: "length (g' ! 1) = 2" "g' ! 1 ! 0 = Fin (1 / 5000)" "g' ! 1 ! 1 = NaN"
    using g'(3) l by (auto simp: demo_band_def)
  have "g' ! 0 = [Fin 1, Fin 1]"
    using r0 by (auto simp: list_eq_iff_nth_eq less_Suc_eq numeral_2_eq_2)
  moreover have "g' ! 1 = [Fin (1 / 5000), NaN]"
    using r1 by (auto simp: list_eq_iff_nth_eq less_Suc_eq numeral_2_eq_2)
  ultimately show ?thesis using g'(1,2) l by auto
qed

subsection \<open>The synthesized green band\<close>

text \<open>
  Against claim C1 as stated: the scenario of constant 4 by 4 bands, red 4, blue 16 and
  green 0. The green input is at most \<open>1e-4\<close>, so the clipping replaces it by 1, and the
  synthesized green is \<open>0.1 * 1 + 0.45 * 4 + 0.45 * 2 = 2.8\<close>, not 2.7. No input gives
  2.7: a clipped and enhanced sample is never 0 (\<open>enhanced_never_zero\<close>).
\<close>

theorem scenario_green_counterexample:
  "band_combiner (scenario 4 4) = Inr (replicate 4 (replicate 4 [Fin 2, Fin (14 / 5), Fin 4])) \<and>
   (14 / 5 :: real) \<noteq> 27 / 10"
  by (simp add: scenario_def run_defs sqrt_4 sqrt_16 numeral_eq_Suc)

text \<open>
  Claim C1, amended. For three enhanced bands of one shape, the synthesized green is, at
  every pixel with finite samples, 0.1 times the green plus 0.45 times the red plus 0.45
  times the blue sample. For constant bands red 4, blue 16 and green 0 of any shape
  \<open>(h, w)\<close>, 4 by 4 among them, the composite has shape \<open>(h, w, 3)\<close> and every pixel is
  red 2, green 2.8, blue 4.
\<close>

theorem synthesized_green_affine:
  assumes "has_shape g h w" "has_shape b h w" "has_shape r h w" "i < h" "j < w"
    and "g ! i ! j = Fin gv" "b ! i ! j = Fin bv" "r ! i ! j = Fin rv"
  shows "(\<exists>z. fake_green (Arr2 g) (Arr2 b) (Arr2 r) = Inr (Arr2 z) \<and> has_shape z h w \<and>
            z ! i ! j = Fin (1 / 10 * gv + 45 / 100 * rv + 45 / 100 * bv)) \<and>
         band_combiner (scenario h' w') = Inr (replicate h' (replicate w' [Fin 2, Fin (14 / 5), Fin 4]))"
proof (rule conjI)
  obtain z where z: "weighted_green (1 / 10, 45 / 100, 45 / 100) (Arr2 g) (Arr2 b) (Arr2 r) = Inr (Arr2 z)"
      "has_shape z h w"
      "\<forall>i<h. \<forall>j<w. z ! i ! j =
              fp_add (fp_add (fp_scale (g ! i ! j) (1 / 10)) (fp_scale (b ! i ! j) (45 / 100)))
                     (fp_scale (r ! i ! j) (45 / 100))"
    using weighted_green_same_shape [OF assms(1,2,3)] by blast
  have "z ! i ! j = Fin (1 / 10 * gv + 45 / 100 * rv + 45 / 100 * bv)"
    using z(3) assms(4-8) by (simp add: algebra_simps)
  then show "\<exists>z. fake_green (Arr2 g) (Arr2 b) (Arr2 r) = Inr (Arr2 z) \<and> has_shape z h w \<and>
            z ! i ! j = Fin (1 / 10 * gv + 45 / 100 * rv + 45 / 100 * bv)"
    using z(1,2) unfolding fake_green_def weights_def by blast
next
  let ?r = "replicate h' (replicate w' (Fin 4))" and ?b = "replicate h' (replicate w' (Fin 16))"
  let ?g = "replicate h' (replicate w' (Fin 0))"
  obtain c where c: "band_combiner_w (1 / 10, 45 / 100, 45 / 100)
               \<lparr>red_data = Some (Arr2 ?r), blue_data = Some (Arr2 ?b), green_data = Some (Arr2 ?g)\<rparr> = Inr c"
      "has_shape c h' w'"
      "\<forall>i<h'. \<forall>j<w'. c ! i ! j =
              [enhanced (?r ! i ! j),
               fp_add (fp_add (fp_scale (enhanced (?g ! i ! j)) (1 / 10)) (fp_scale (enhanced (?b ! i ! j)) (45 / 100)))
                      (fp_scale (enhanced (?r ! i ! j)) (45 / 100)),
               enhanced (?b ! i ! j)]"
    using band_combiner_w_same_shape [OF has_shape_replicate has_shape_replicate has_shape_replicate]
    by blast
  have "\<forall>i<h'. \<forall>j<w'. c ! i ! j = [Fin 2, Fin (14 / 5), Fin 4]"
    using c(3) by (simp add: enhanced_values)
  then have "c = replicate h' (replicate w' [Fin 2, Fin (14 / 5), Fin 4])"
    by (rule constant_grid [OF c(2)])
  then show "band_combiner (scenario h' w') = Inr (replicate h' (replicate w' [Fin 2, Fin (14 / 5), Fin 4]))"
    using c(1) by (simp add: band_combiner_def weights_def scenario_def constant_band_def)
qed

theorem synthesized_green_affine_witness:
  "has_shape demo_green 2 2 \<and> has_shape demo_blue 2 2 \<and> has_shape demo_red 2 2 \<and>
   (\<exists>z. fake_green (Arr2 demo_green) (Arr2 demo_blue) (Arr2 demo_red) = Inr (Arr2 z) \<and>
      has_shape z 2 2 \<and> z ! 1 ! 0 = Fin (7)) \<and>
   band_combiner (scenario 4 4) = Inr (replicate 4 (replicate 4 [Fin 2, Fin (14 / 5), Fin 4]))"
proof -
  have v: "demo_green ! 1 ! 0 = Fin 7" "demo_blue ! 1 ! 0 = Fin 11" "demo_red ! 1 ! 0 = Fin 3"
    by (simp_all add: demo_green_def demo_blue_def demo_red_def)
  have "(\<exists>z. fake_green (Arr2 demo_green) (Arr2 demo_blue) (Arr2 demo_red) = Inr (Arr2 z) \<and>
            has_shape z 2 2 \<and> z ! 1 ! 0 = Fin (1 / 10 * 7 + 45 / 100 * 3 + 45 / 100 * 11)) \<and>
         band_combiner (scenario 4 4) = Inr (replicate 4 (replicate 4 [Fin 2, Fin (14 / 5), Fin 4]))"
    by (rule synthesized_green_affine [OF demo_shapes(2) demo_shapes(3) demo_shapes(1) _ _ v]) simp_all
  then show ?thesis using demo_shapes by simp
qed

subsection \<open>Fill pixels\<close>

text \<open>
  Claim C10. At a pixel where the three input bands are at most \<open>1e-4\<close>, the composite
  is 1 in its three bands: 1 is a fixed point of the square root, and the weights sum
  to 1.
\<close>

theorem fill_pixels_stay_one:
  assumes "has_shape r h w" "has_shape g h w" "has_shape b h w" "i < h" "j < w"
    and "fp_le (r ! i ! j) (1 / 10000)" "fp_le (g ! i ! j) (1 / 10000)" "fp_le (b ! i ! j) (1 / 10000)"
  shows "\<exists>c. band_combiner \<lparr>red_data = Some (Arr2 r), blue_data = Some (Arr2 b), green_data = Some (Arr2 g)\<rparr>
            = Inr c \<and> has_shape c h w \<and> c ! i ! j = [Fin 1, Fin 1, Fin 1]"
proof -
  obtain c where c: "band_combiner_w (1 / 10, 45 / 100, 45 / 100)
               \<lparr>red_data = Some (Arr2 r), blue_data = Some (Arr2 b), green_data = Some (Arr2 g)\<rparr> = Inr c"
      "has_shape c h w"
      "\<forall>i<h. \<forall>j<w. c ! i ! j =
              [enhanced (r ! i ! j),
               fp_add (fp_add (fp_scale (enhanced (g ! i ! j)) (1 / 10)) (fp_scale (enhanced (b ! i ! j)) (45 / 100)))
                      (fp_scale (enhanced (r ! i ! j)) (45 / 100)),
               enhanced (b ! i ! j)]"
    using band_combiner_w_same_shape [OF assms(1,2,3)] by blast
  have "c ! i ! j = [Fin 1, Fin 1, Fin 1]"
    using c(3) assms(4,5) enhanced_fill [OF assms(6)] enhanced_fill [OF assms(7)]
      enhanced_fill [OF assms(8)] by simp
  then show ?thesis using c(1,2) unfolding band_combiner_def weights_def by blast
qed

theorem fill_pixels_stay_one_witness:
  "has_shape dark_corner 2 2 \<and> has_shape dark_corner_2 2 2 \<and> (0::nat) < 2 \<and>
   fp_le (dark_corner ! 0 ! 0) (1 / 10000) \<and> fp_le (dark_corner_2 ! 0 ! 0) (1 / 10000) \<and>
   (\<exists>c. band_combiner \<lparr>red_data = Some (Arr2 dark_corner), blue_data = Some (Arr2 dark_corner),
            green_data = Some (Arr2 dark_corner_2)\<rparr> = Inr c \<and> c ! 0 ! 0 = [Fin 1, Fin 1, Fin 1])"
proof -
  have s: "has_shape dark_corner 2 2" "has_shape dark_corner_2 2 2"
    by (simp_all add: has_shape_def dark_corner_def dark_corner_2_def)
  have p: "fp_le (dark_corner ! 0 ! 0) (1 / 10000)" "fp_le (dark_corner_2 ! 0 ! 0) (1 / 10000)"
    by (simp_all add: dark_corner_def dark_corner_2_def)
  have "\<exists>c. band_combiner \<lparr>red_data = Some (Arr2 dark_corner), blue_data = Some (Arr2 dark_corner),
            green_data = Some (Arr2 dark_corner_2)\<rparr> = Inr c \<and> has_shape c 2 2 \<and>
            c ! 0 ! 0 = [Fin 1, Fin 1, Fin 1]"
    by (rule fill_pixels_stay_one [OF s(1) s(2) s(1) _ _ p(1) p(2) p(1)]) simp_all
  then show ?thesis using s p by auto
qed

subsection \<open>Values that are not finite\<close>

text \<open>
  Against claim C8 as stated: a NaN in the red band is not rejected, and the composite
  has NaN in its red and green bands.
\<close>

theorem nan_survives_counterexample:
  "band_combiner nan_red = Inr [[[NaN, NaN, Fin 4]]]"
  by (simp add: nan_red_def run_defs sqrt_4 sqrt_16)

text \<open>
  Claim C8, amended. For three bands of one shape the combiner returns a composite
  whatever the samples are. A NaN of an input band is at most \<open>1e-4\<close> in no comparison,
  so it survives the clipping and appears in that band of the composite and in the green
  band; an infinite red or blue sample appears in its band. No input makes the combiner
  raise \<^verbatim>\<open>NonFiniteValueError\<close>.
\<close>

theorem nonfinite_passes_through:
  assumes "has_shape r h w" "has_shape g h w" "has_shape b h w" "i < h" "j < w"
  shows "(\<exists>c rv gv bv.
            band_combiner \<lparr>red_data = Some (Arr2 r), blue_data = Some (Arr2 b), green_data = Some (Arr2 g)\<rparr>
              = Inr c \<and>
            c ! i ! j = [rv, gv, bv] \<and>
            (r ! i ! j = NaN \<longrightarrow> rv = NaN \<and> gv = NaN) \<and>
            (b ! i ! j = NaN \<longrightarrow> bv = NaN \<and> gv = NaN) \<and>
            (g ! i ! j = NaN \<longrightarrow> gv = NaN) \<and>
            (r ! i ! j = PInf \<longrightarrow> rv = PInf) \<and>
            (b ! i ! j = PInf \<longrightarrow> bv = PInf)) \<and>
         band_combiner env \<noteq> Inl NonFiniteValueError"
proof (rule conjI)
  obtain c where c: "band_combiner_w (1 / 10, 45 / 100, 45 / 100)
               \<lparr>red_data = Some (Arr2 r), blue_data = Some (Arr2 b), green_data = Some (Arr2 g)\<rparr> = Inr c"
      "\<forall>i<h. \<forall>j<w. c ! i ! j =
              [enhanced (r ! i ! j),
               fp_add (fp_add (fp_scale (enhanced (g ! i ! j)) (1 / 10)) (fp_scale (enhanced (b ! i ! j)) (45 / 100)))
                      (fp_scale (enhanced (r ! i ! j)) (45 / 100)),
               enhanced (b ! i ! j)]"
    using band_combiner_w_same_shape [OF assms(1,2,3)] by blast
  let ?rv = "enhanced (r ! i ! j)" and ?bv = "enhanced (b ! i ! j)"
  let ?gv = "fp_add (fp_add (fp_scale (enhanced (g ! i ! j)) (1 / 10)) (fp_scale ?bv (45 / 100)))
                      (fp_scale ?rv (45 / 100))"
  have px: "c ! i ! j = [?rv, ?gv, ?bv]" using c(2) assms(4,5) by blast
  have "r ! i ! j = NaN \<longrightarrow> ?rv = NaN \<and> ?gv = NaN"
    by (cases "fp_add (fp_scale (enhanced (g ! i ! j)) (1 / 10)) (fp_scale ?bv (45 / 100))")
       (simp_all add: enhanced_nonfinite)
  moreover have "b ! i ! j = NaN \<longrightarrow> ?bv = NaN \<and> ?gv = NaN"
    by (cases "fp_scale (enhanced (g ! i ! j)) (1 / 10)"; cases "fp_scale ?rv (45 / 100)")
       (simp_all add: enhanced_nonfinite)
  moreover have "g ! i ! j = NaN \<longrightarrow> ?gv = NaN"
    by (cases "fp_scale ?bv (45 / 100)"; cases "fp_scale ?rv (45 / 100)")
       (simp_all add: enhanced_nonfinite)
  moreover have "r ! i ! j = PInf \<longrightarrow> ?rv = PInf" "b ! i ! j = PInf \<longrightarrow> ?bv = PInf"
    by (simp_all add: enhanced_nonfinite)
  ultimately show "\<exists>c rv gv bv.
            band_combiner \<lparr>red_data = Some (Arr2 r), blue_data = Some (Arr2 b), green_data = Some (Arr2 g)\<rparr>
              = Inr c \<and>
            c ! i ! j = [rv, gv, bv] \<and>
            (r ! i ! j = NaN \<longrightarrow> rv = NaN \<and> gv = NaN) \<and>
            (b ! i ! j = NaN \<longrightarrow> bv = NaN \<and> gv = NaN) \<and>
            (g ! i ! j = NaN \<longrightarrow> gv = NaN) \<and>
            (r ! i ! j = PInf \<longrightarrow> rv = PInf) \<and>
            (b ! i ! j = PInf \<longrightarrow> bv = PInf)"
    using c(1) px unfolding band_combiner_def weights_def by blast
next
  show "band_combiner env \<noteq> Inl NonFiniteValueError"
    using band_combiner_w_error [of weights env NonFiniteValueError]
    by (auto simp: band_combiner_def)
qed

theorem nonfinite_passes_through_witness:
  "has_shape [[NaN]] 1 1 \<and> has_shape [[Fin 4]] 1 1 \<and> has_shape [[Fin 16]] 1 1 \<and>
   (\<exists>c bv. band_combiner nan_red = Inr c \<and> c ! 0 ! 0 = [NaN, NaN, bv]) \<and>
   band_combiner nan_red \<noteq> Inl NonFiniteValueError"
proof -
  have s: "has_shape [[NaN]] 1 1" "has_shape [[Fin 4]] 1 1" "has_shape [[Fin 16]] 1 1"
    by (simp_all add: has_shape_def)
  have "(\<exists>c rv gv bv. band_combiner nan_red = Inr c \<and> c ! 0 ! 0 = [rv, gv, bv] \<and>
            ([[NaN]] ! 0 ! 0 = NaN \<longrightarrow> rv = NaN \<and> gv = NaN)) \<and>
        band_combiner nan_red \<noteq> Inl NonFiniteValueError"
    using nonfinite_passes_through [OF s(1) s(2) s(3) zero_less_one zero_less_one, of nan_red]
    unfolding nan_red_def by blast
  then show ?thesis using s by auto
qed

subsection \<open>Bands of different shapes\<close>

text \<open>
  Against claim C7 as stated: a green band of shape \<open>(1, 1)\<close> with red and blue bands
  of shape \<open>(2, 2)\<close>. The shapes are not all identical, and the combiner returns a
  composite, the green sample broadcast to every pixel.
\<close>

theorem green_broadcast_counterexample:
  "band_combiner small_green = Inr (replicate 2 (replicate 2 [Fin 2, Fin (29 / 10), Fin 4]))"
  by (simp add: small_green_def run_defs sqrt_4 sqrt_16 numeral_eq_Suc)

text \<open>The shape of the result of an elementwise operation, for arrays of any shape.\<close>

lemma stretch_0: "stretch 0 xs = []"
  by (auto simp: stretch_def)

lemma length_stretch: "length (stretch n xs) = n"
  by (simp add: stretch_def)

lemma grid_shape_amap: "grid_shape (amap f a) = grid_shape a"
  by (cases a) (simp_all add: grid_shape_def shape2_map, simp add: shape2_def ncols_def)

lemma grid_shape_enhanced: "grid_shape (np_sqrt (clip_out a)) = grid_shape a"
  by (simp add: np_sqrt_def clip_out_def grid_shape_amap)

lemma grid_shape_scale: "grid_shape (scale a c) = grid_shape a"
  by (simp add: scale_def grid_shape_amap)

lemma grid_shape_no_rows: "fst (grid_shape a) = 0 \<Longrightarrow> snd (grid_shape a) = 0"
  by (cases a) (simp_all add: grid_shape_def shape2_def ncols_def)

lemma bdim_no_rows:
  "bdim m n = Some h \<Longrightarrow> 0 < h \<Longrightarrow> 0 < m \<and> 0 < n"
  by (auto simp: bdim_def split: if_splits)

lemma broadcast_to_rows:
  assumes "0 < h" "g \<noteq> []"
  shows "length (broadcast_to h w g) = h" "length (hd (broadcast_to h w g)) = w"
proof -
  show "length (broadcast_to h w g) = h" by (simp add: broadcast_to_def length_stretch)
  have "hd (broadcast_to h w g) = stretch w (hd g)"
    using assms by (cases g) (auto simp: broadcast_to_def stretch_def hd_map)
  then show "length (hd (broadcast_to h w g)) = w" by (simp add: length_stretch)
qed

lemma shape2_map2_broadcast:
  assumes "bdim (length ra) (length rb) = Some h"
  shows "shape2 (map2 (map2 f) (broadcast_to h w ra) (broadcast_to h w rb))
     = (h, if h = 0 then 0 else w)"
proof (cases "h = 0")
  case True
  then show ?thesis by (simp add: shape2_def ncols_def broadcast_to_def stretch_0)
next
  case False
  then have h: "0 < h" by simp
  from bdim_no_rows [OF assms h] have ne: "ra \<noteq> []" "rb \<noteq> []" by auto
  let ?A = "broadcast_to h w ra" and ?B = "broadcast_to h w rb"
  have A: "length ?A = h" "length (hd ?A) = w" using broadcast_to_rows [OF h ne(1)] by simp_all
  have B: "length ?B = h" "length (hd ?B) = w" using broadcast_to_rows [OF h ne(2)] by simp_all
  obtain a0 as where a: "?A = a0 # as" using A(1) h by (cases ?A) auto
  obtain b0 bs where b: "?B = b0 # bs" using B(1) h by (cases ?B) auto
  have "length a0 = w" "length b0 = w" using A(2) B(2) a b by simp_all
  then show ?thesis using A(1) B(1) a b h by (simp add: shape2_def ncols_def)
qed

lemma elementwise_cases:
  "(elementwise f a b = Inl (ValueError ''operands could not be broadcast together'') \<and>
      (bdim (fst (grid_shape a)) (fst (grid_shape b)) = None \<or>
       bdim (snd (grid_shape a)) (snd (grid_shape b)) = None)) \<or>
   (\<exists>z h w. elementwise f a b = Inr z \<and>
      bdim (fst (grid_shape a)) (fst (grid_shape b)) = Some h \<and>
      bdim (snd (grid_shape a)) (snd (grid_shape b)) = Some w \<and>
      grid_shape z = (h, if h = 0 then 0 else w))"
proof (cases "bdim (length (rows_of a)) (length (rows_of b))")
  case None
  then show ?thesis by (simp add: elementwise_def grid_shape_def shape2_def)
next
  case (Some h)
  show ?thesis
  proof (cases "bdim (ncols (rows_of a)) (ncols (rows_of b))")
    case None
    then show ?thesis using Some by (simp add: elementwise_def grid_shape_def shape2_def)
  next
    case w: (Some w)
    let ?z = "map2 (map2 f) (broadcast_to h w (rows_of a)) (broadcast_to h w (rows_of b))"
    have sz: "shape2 ?z = (h, if h = 0 then 0 else w)" by (rule shape2_map2_broadcast [OF Some])
    show ?thesis
    proof (cases "is_1d a \<and> is_1d b")
      case True
      then obtain u v where ab: "a = Arr1 u" "b = Arr1 v" by (cases a; cases b) auto
      then have h1: "h = 1" using Some by (simp add: bdim_def)
      have "length ?z = 1" using sz h1 by (simp add: shape2_def)
      then have "[hd ?z] = ?z" by (cases ?z) auto
      then have "grid_shape (Arr1 (hd ?z)) = (h, if h = 0 then 0 else w)"
        using sz by (simp add: grid_shape_def)
      moreover have "elementwise f a b = Inr (Arr1 (hd ?z))"
        using Some w True by (simp add: elementwise_def Let_def)
      ultimately show ?thesis using Some w by (simp add: grid_shape_def shape2_def)
    next
      case False
      then have "elementwise f a b = Inr (Arr2 ?z)"
        using Some w by (simp add: elementwise_def Let_def)
      moreover have "grid_shape (Arr2 ?z) = (h, if h = 0 then 0 else w)"
        using sz by (simp add: grid_shape_def)
      ultimately show ?thesis using Some w by (simp add: grid_shape_def shape2_def)
    qed
  qed
qed

lemma dstack_cases:
  "(grid_shape a = grid_shape g \<and> grid_shape g = grid_shape c \<and> (\<exists>s. dstack a g c = Inr s)) \<or>
   (\<not> (grid_shape a = grid_shape g \<and> grid_shape g = grid_shape c) \<and>
      dstack a g c = Inl (ValueError ''all the input array dimensions must match''))"
  by (simp add: dstack_def grid_shape_def Let_def)

text \<open>Arithmetic of two broadcasts in a row, for one dimension and for a whole shape.\<close>

lemma bdim_twice:
  "bdim g b = Some x \<Longrightarrow> bdim x r = Some y \<Longrightarrow> (r = y \<and> y = b) \<longleftrightarrow> (r = b \<and> (g = r \<or> g = 1))"
  by (auto simp: bdim_def split: if_splits)

lemma bdim_zero: "bdim 0 n = Some y \<Longrightarrow> y = 0"
  by (auto simp: bdim_def split: if_splits)

lemma shapes_fit:
  assumes h1: "bdim hg hb = Some h1" and w1: "bdim cg cb = Some w1"
    and h2: "bdim h1 hr = Some h2" and w2: "bdim (if h1 = 0 then 0 else w1) cr = Some w2"
    and zr: "hr = 0 \<Longrightarrow> cr = 0" and zg: "hg = 0 \<Longrightarrow> cg = 0" and zb: "hb = 0 \<Longrightarrow> cb = 0"
  shows "(hr = hb \<and> cr = cb \<and> (hg = hr \<or> hg = 1) \<and> (cg = cr \<or> cg = 1)) \<longleftrightarrow>
         (hr = h2 \<and> cr = (if h2 = 0 then 0 else w2) \<and> h2 = hb \<and> (if h2 = 0 then 0 else w2) = cb)"
proof -
  have rows: "(hr = h2 \<and> h2 = hb) \<longleftrightarrow> (hr = hb \<and> (hg = hr \<or> hg = 1))"
    by (rule bdim_twice [OF h1 h2])
  show ?thesis
  proof (cases "hr = h2 \<and> h2 = hb")
    case False
    then show ?thesis using rows by blast
  next
    case True
    show ?thesis
    proof (cases "hr = 0")
      case z: True
      have e: "hr = h2" "h2 = hb" using True by simp_all
      have c: "cr = 0" "cb = 0" "h2 = 0" using zr zb z e by simp_all
      have g: "cg = cr \<or> cg = 1" using w1 c(1,2) by (auto simp: bdim_def split: if_splits)
      have hgs: "hg = hr \<or> hg = 1" using rows True by blast
      have L: "hr = hb \<and> cr = cb \<and> (hg = hr \<or> hg = 1) \<and> (cg = cr \<or> cg = 1)"
        using e c g hgs by simp
      have R: "hr = h2 \<and> cr = (if h2 = 0 then 0 else w2) \<and> h2 = hb \<and> (if h2 = 0 then 0 else w2) = cb"
        using e c by simp
      show ?thesis using L R by blast
    next
      case nz: False
      have e: "hr = h2" "h2 = hb" using True by simp_all
      have "h1 \<noteq> 0"
      proof
        assume "h1 = 0"
        then have "bdim 0 hr = Some h2" using h2 by simp
        then have "h2 = 0" by (rule bdim_zero)
        then show False using nz e by simp
      qed
      then have "bdim w1 cr = Some w2" using w2 by simp
      from bdim_twice [OF w1 this]
      have cols: "(cr = w2 \<and> w2 = cb) \<longleftrightarrow> (cr = cb \<and> (cg = cr \<or> cg = 1))" .
      have hgs: "hg = hr \<or> hg = 1" using rows True by blast
      have nz2: "h2 \<noteq> 0" using nz e by simp
      show ?thesis using cols e hgs nz2 by simp
    qed
  qed
qed

lemma bdim_fit: "g = r \<or> g = 1 \<Longrightarrow> bdim g r = Some r"
  by (auto simp: bdim_def)

lemma bdim_same: "bdim m m = Some m"
  by (simp add: bdim_def)

lemma shapes_broadcast:
  assumes fit: "hr = hb" "cr = cb" "hg = hr \<or> hg = 1" "cg = cr \<or> cg = 1"
    and h1: "bdim hg hb = Some h1" and w1: "bdim cg cb = Some w1"
    and zr: "hr = 0 \<Longrightarrow> cr = 0"
  shows "bdim h1 hr \<noteq> None" "bdim (if h1 = 0 then 0 else w1) cr \<noteq> None"
proof -
  have "bdim hg hb = Some hr" using bdim_fit [of hg hr] fit(1,3) by simp
  then have e1: "h1 = hr" using h1 by simp
  have "bdim cg cb = Some cr" using bdim_fit [of cg cr] fit(2,4) by simp
  then have e2: "w1 = cr" using w1 by simp
  show "bdim h1 hr \<noteq> None" using e1 by (simp add: bdim_same)
  show "bdim (if h1 = 0 then 0 else w1) cr \<noteq> None"
    using e1 e2 zr by (simp add: bdim_same)
qed

text \<open>
  Lines 148 and 150 on any three arrays: they return a composite exactly for shapes that
  are \<open>stackable\<close>, and raise \<^verbatim>\<open>ValueError\<close> for all others.
\<close>

lemma combiner_outcome:
  "(stackable (grid_shape R) (grid_shape G) (grid_shape B) \<and>
      (\<exists>g3 c. weighted_green ws G B R = Inr g3 \<and> dstack R g3 B = Inr c)) \<or>
   (\<not> stackable (grid_shape R) (grid_shape G) (grid_shape B) \<and>
      (weighted_green ws G B R = Inl (ValueError ''operands could not be broadcast together'') \<or>
       (\<exists>g3. weighted_green ws G B R = Inr g3 \<and>
          dstack R g3 B = Inl (ValueError ''all the input array dimensions must match''))))"
proof -
  obtain wg wb wr where ws: "ws = (wg, wb, wr)" by (cases ws) auto
  obtain hr cr where sr: "grid_shape R = (hr, cr)" by (cases "grid_shape R") auto
  obtain hg cg where sg: "grid_shape G = (hg, cg)" by (cases "grid_shape G") auto
  obtain hb cb where sb: "grid_shape B = (hb, cb)" by (cases "grid_shape B") auto
  have zr: "hr = 0 \<Longrightarrow> cr = 0" using grid_shape_no_rows [of R] sr by simp
  have zg: "hg = 0 \<Longrightarrow> cg = 0" using grid_shape_no_rows [of G] sg by simp
  have zb: "hb = 0 \<Longrightarrow> cb = 0" using grid_shape_no_rows [of B] sb by simp
  let ?VE = "ValueError ''operands could not be broadcast together''"
  have run: "weighted_green ws G B R
      = and_then (elementwise fp_add (scale G wg) (scale B wb)) (\<lambda>t. elementwise fp_add t (scale R wr))"
    by (simp add: weighted_green_def ws)
  from elementwise_cases [of fp_add "scale G wg" "scale B wb"]
  consider (fail) "elementwise fp_add (scale G wg) (scale B wb) = Inl ?VE"
      "bdim (fst (grid_shape (scale G wg))) (fst (grid_shape (scale B wb))) = None \<or>
       bdim (snd (grid_shape (scale G wg))) (snd (grid_shape (scale B wb))) = None"
    | (ok) t h1 w1 where "elementwise fp_add (scale G wg) (scale B wb) = Inr t"
      "bdim (fst (grid_shape (scale G wg))) (fst (grid_shape (scale B wb))) = Some h1"
      "bdim (snd (grid_shape (scale G wg))) (snd (grid_shape (scale B wb))) = Some w1"
      "grid_shape t = (h1, if h1 = 0 then 0 else w1)"
    by (elim disjE conjE exE) blast+
  then show ?thesis
  proof cases
    case fail
    note f = fail(1) and n = fail(2)
    have "weighted_green ws G B R = Inl ?VE" using run f by simp
    moreover have "\<not> stackable (grid_shape R) (grid_shape G) (grid_shape B)"
    proof
      assume "stackable (grid_shape R) (grid_shape G) (grid_shape B)"
      then have fit: "hr = hb" "cr = cb" "hg = hr \<or> hg = 1" "cg = cr \<or> cg = 1"
        using sr sg sb by (auto simp: stackable_def)
      have "bdim hg hb = Some hr" using bdim_fit [of hg hr] fit(1,3) by simp
      moreover have "bdim cg cb = Some cr" using bdim_fit [of cg cr] fit(2,4) by simp
      ultimately show False using n sg sb by (simp add: grid_shape_scale)
    qed
    ultimately show ?thesis by blast
  next
    case (ok t h1 w1)
    note t = ok(1) and h1 = ok(2) and w1 = ok(3) and st = ok(4)
    have h1': "bdim hg hb = Some h1" and w1': "bdim cg cb = Some w1"
      using h1 w1 sg sb by (simp_all add: grid_shape_scale)
    have run2: "weighted_green ws G B R = elementwise fp_add t (scale R wr)"
      using run t by simp
    from elementwise_cases [of fp_add t "scale R wr"]
    consider (fail2) "elementwise fp_add t (scale R wr) = Inl ?VE"
        "bdim (fst (grid_shape t)) (fst (grid_shape (scale R wr))) = None \<or>
         bdim (snd (grid_shape t)) (snd (grid_shape (scale R wr))) = None"
      | (ok2) g3 h2 w2 where "elementwise fp_add t (scale R wr) = Inr g3"
        "bdim (fst (grid_shape t)) (fst (grid_shape (scale R wr))) = Some h2"
        "bdim (snd (grid_shape t)) (snd (grid_shape (scale R wr))) = Some w2"
        "grid_shape g3 = (h2, if h2 = 0 then 0 else w2)"
      by (elim disjE conjE exE) blast+
    then show ?thesis
    proof cases
      case fail2
      note f = fail2(1) and n = fail2(2)
      have "weighted_green ws G B R = Inl ?VE" using run2 f by simp
      moreover have "\<not> stackable (grid_shape R) (grid_shape G) (grid_shape B)"
      proof
        assume "stackable (grid_shape R) (grid_shape G) (grid_shape B)"
        then have fit: "hr = hb" "cr = cb" "hg = hr \<or> hg = 1" "cg = cr \<or> cg = 1"
          using sr sg sb by (auto simp: stackable_def)
        from shapes_broadcast [OF fit h1' w1' zr]
        show False using n st sr by (auto simp: grid_shape_scale)
      qed
      ultimately show ?thesis by blast
    next
      case (ok2 g3 h2 w2)
      note g3 = ok2(1) and h2 = ok2(2) and w2 = ok2(3) and s3 = ok2(4)
      have wg3: "weighted_green ws G B R = Inr g3" using run2 g3 by simp
      have h2': "bdim h1 hr = Some h2" and w2': "bdim (if h1 = 0 then 0 else w1) cr = Some w2"
        using h2 w2 st sr by (simp_all add: grid_shape_scale)
      have iff: "stackable (grid_shape R) (grid_shape G) (grid_shape B) \<longleftrightarrow>
          (grid_shape R = grid_shape g3 \<and> grid_shape g3 = grid_shape B)"
        using shapes_fit [OF h1' w1' h2' w2' zr zg zb] s3 sr sg sb
        by (simp add: stackable_def)
      from dstack_cases [of R g3 B] show ?thesis using wg3 iff by blast
    qed
  qed
qed

lemma band_combiner_bound:
  "band_combiner \<lparr>red_data = Some r, blue_data = Some b, green_data = Some g\<rparr>
     = and_then (fake_green (np_sqrt (clip_out g)) (np_sqrt (clip_out b)) (np_sqrt (clip_out r)))
         (\<lambda>g3. dstack (np_sqrt (clip_out r)) g3 (np_sqrt (clip_out b)))"
  by (simp add: band_combiner_def band_combiner_w_def read_local_def fake_green_def Let_def)

lemma odd_green_fails:
  "band_combiner odd_green = Inl (ValueError ''operands could not be broadcast together'')"
  by (simp add: odd_green_def run_defs numeral_eq_Suc)

text \<open>
  Claim C7, amended. For three input bands of any shapes (a one-dimensional band of
  length \<open>n\<close> counting as \<open>(1, n)\<close>), the combiner returns a composite exactly when red
  and blue have one shape and each dimension of green is theirs or 1; green is then
  broadcast. For every other triple, \<open>(4, 4)\<close> against \<open>(3, 3)\<close> among them whichever
  band is the odd one, it fails with NumPy's \<^verbatim>\<open>ValueError\<close>, and the exception is raised
  by the weighted sum of line 148 or by the stacking of line 150, applied to the bands
  that lines 138 to 145 have clipped and square-rooted. No input makes it raise
  \<^verbatim>\<open>ShapeMismatchError\<close>.
\<close>

theorem shape_mismatch_is_value_error:
  "(stackable (grid_shape r) (grid_shape g) (grid_shape b) \<longrightarrow>
      (\<exists>c. band_combiner \<lparr>red_data = Some r, blue_data = Some b, green_data = Some g\<rparr> = Inr c)) \<and>
   (\<not> stackable (grid_shape r) (grid_shape g) (grid_shape b) \<longrightarrow>
      (fake_green (np_sqrt (clip_out g)) (np_sqrt (clip_out b)) (np_sqrt (clip_out r))
         = Inl (ValueError ''operands could not be broadcast together'') \<and>
       band_combiner \<lparr>red_data = Some r, blue_data = Some b, green_data = Some g\<rparr>
         = Inl (ValueError ''operands could not be broadcast together'')) \<or>
      (\<exists>g3. fake_green (np_sqrt (clip_out g)) (np_sqrt (clip_out b)) (np_sqrt (clip_out r)) = Inr g3 \<and>
         dstack (np_sqrt (clip_out r)) g3 (np_sqrt (clip_out b))
           = Inl (ValueError ''all the input array dimensions must match'') \<and>
         band_combiner \<lparr>red_data = Some r, blue_data = Some b, green_data = Some g\<rparr>
           = Inl (ValueError ''all the input array dimensions must match''))) \<and>
   band_combiner env \<noteq> Inl ShapeMismatchError"
proof -
  let ?R = "np_sqrt (clip_out r)" and ?G = "np_sqrt (clip_out g)" and ?B = "np_sqrt (clip_out b)"
  let ?env = "\<lparr>red_data = Some r, blue_data = Some b, green_data = Some g\<rparr>"
  have run: "band_combiner ?env = and_then (fake_green ?G ?B ?R) (\<lambda>g3. dstack ?R g3 ?B)"
    by (rule band_combiner_bound)
  have shapes: "stackable (grid_shape ?R) (grid_shape ?G) (grid_shape ?B)
      = stackable (grid_shape r) (grid_shape g) (grid_shape b)"
    by (simp add: grid_shape_enhanced)
  note outcome = combiner_outcome [of ?R ?G ?B weights, unfolded shapes, folded fake_green_def]
  have ok: "\<exists>c. band_combiner ?env = Inr c"
    if "stackable (grid_shape r) (grid_shape g) (grid_shape b)"
    using outcome that run by auto
  have bad: "(fake_green ?G ?B ?R = Inl (ValueError ''operands could not be broadcast together'') \<and>
       band_combiner ?env = Inl (ValueError ''operands could not be broadcast together'')) \<or>
      (\<exists>g3. fake_green ?G ?B ?R = Inr g3 \<and>
         dstack ?R g3 ?B = Inl (ValueError ''all the input array dimensions must match'') \<and>
         band_combiner ?env = Inl (ValueError ''all the input array dimensions must match''))"
    if "\<not> stackable (grid_shape r) (grid_shape g) (grid_shape b)"
    using outcome that run by auto
  have never: "band_combiner env \<noteq> Inl ShapeMismatchError"
    using band_combiner_w_error [of weights env ShapeMismatchError]
    by (auto simp: band_combiner_def)
  show ?thesis using ok bad never by blast
qed

theorem shape_mismatch_is_value_error_witness:
  "\<not> stackable (grid_shape (constant_band 4 4 4)) (grid_shape (constant_band 3 3 0))
       (grid_shape (constant_band 4 4 16)) \<and>
   band_combiner odd_green = Inl (ValueError ''operands could not be broadcast together'') \<and>
   band_combiner odd_green \<noteq> Inl ShapeMismatchError"
proof -
  have ns: "\<not> stackable (grid_shape (constant_band 4 4 4)) (grid_shape (constant_band 3 3 0))
       (grid_shape (constant_band 4 4 16))"
    by (simp add: stackable_def grid_shape_def shape2_def ncols_def constant_band_def numeral_eq_Suc)
  have "band_combiner odd_green = Inl (ValueError ''operands could not be broadcast together'') \<or>
        band_combiner odd_green = Inl (ValueError ''all the input array dimensions must match'')"
    using shape_mismatch_is_value_error [of "constant_band 4 4 4" "constant_band 3 3 0"
        "constant_band 4 4 16" odd_green] ns
    unfolding odd_green_def by blast
  then have "band_combiner odd_green \<noteq> Inl ShapeMismatchError" by auto
  then show ?thesis using ns odd_green_fails by simp
qed

subsection \<open>The weights\<close>

text \<open>
  The weights of the synthesized green are the literals of line 148. They sum to 1; the
  function has no argument for them and no check of their sum.
\<close>

lemma weights_sum: "(case weights of (wg, wb, wr) \<Rightarrow> wg + wb + wr) = 1"
  by (simp add: weights_def)

subsection \<open>The resampler\<close>

text \<open>At a knot the piecewise linear interpolant takes the value given there.\<close>

lemma interp1_at_knot:
  "sorted_wrt (<) ks \<Longrightarrow> length vs = length ks \<Longrightarrow> 2 \<le> length ks \<Longrightarrow> k < length ks
     \<Longrightarrow> interp1 ks vs (ks ! k) = vs ! k"
proof (induction ks arbitrary: vs k)
  case Nil
  then show ?case by simp
next
  case (Cons a ks')
  from Cons.prems(3) obtain b rest where ks': "ks' = b # rest"
    by (cases ks') auto
  from Cons.prems(2) ks' obtain u v vs' where vs: "vs = u # v # vs'"
    by (cases vs; cases "tl vs") auto
  have ab: "a < b" using Cons.prems(1) ks' by simp
  show ?case
  proof (cases k)
    case 0
    then show ?thesis using ks' vs ab by simp
  next
    case (Suc k')
    show ?thesis
    proof (cases k')
      case 0
      then show ?thesis using ks' vs Suc ab by simp
    next
      case (Suc k'')
      have k'': "k'' < length rest" using Cons.prems(4) ks' \<open>k = Suc k'\<close> Suc by simp
      then have ne: "rest \<noteq> []" by auto
      have "b < rest ! k''" using Cons.prems(1) ks' k'' by simp
      then have step: "interp1 (a # b # rest) (u # v # vs') (rest ! k'')
          = interp1 (b # rest) (v # vs') (rest ! k'')"
        using ne by simp
      have "interp1 ks' (v # vs') (ks' ! k') = (v # vs') ! k'"
      proof (rule Cons.IH)
        show "sorted_wrt (<) ks'" using Cons.prems(1) by simp
        show "length (v # vs') = length ks'" using Cons.prems(2) vs by simp
        show "2 \<le> length ks'" using ks' ne by (cases rest) auto
        show "k' < length ks'" using Cons.prems(4) \<open>k = Suc k'\<close> by simp
      qed
      then show ?thesis using step ks' vs \<open>k = Suc k'\<close> Suc by simp
    qed
  qed
qed

lemma knot_in_bounds:
  assumes "sorted ks" "k < length ks"
  shows "\<not> out_of_bounds ks (ks ! k)"
proof -
  have "ks \<noteq> []" using assms(2) by auto
  then have "hd ks = ks ! 0" "last ks = ks ! (length ks - 1)"
    by (simp_all add: hd_conv_nth last_conv_nth)
  moreover have "ks ! 0 \<le> ks ! k" using assms by (simp add: sorted_nth_mono)
  moreover have "ks ! k \<le> ks ! (length ks - 1)" using assms by (simp add: sorted_nth_mono)
  ultimately show ?thesis by (simp add: out_of_bounds_def)
qed

lemma sort_decreasing: "sorted (rev ys) \<Longrightarrow> sort ys = rev ys"
  by (rule properties_for_sort) simp_all

lemma insort_key_last:
  "\<forall>x\<in>set xs. f x < f p \<Longrightarrow> insort_key f p xs = xs @ [p]"
  by (induction xs) auto

lemma sort_key_fst_decreasing:
  "sorted_wrt (>) (map fst ps) \<Longrightarrow> sort_key fst ps = rev ps"
proof (induction ps)
  case Nil
  then show ?case by simp
next
  case (Cons p ps)
  then have "sort_key fst ps = rev ps" by simp
  moreover have "\<forall>x\<in>set (rev ps). fst x < fst p" using Cons.prems by auto
  ultimately show ?case by (simp add: insort_key_last)
qed

lemma reorder_decreasing:
  assumes "sorted_wrt (>) ks" "length vs = length ks"
  shows "reorder ks vs = rev vs"
proof -
  have "sort_key fst (zip ks vs) = rev (zip ks vs)"
    using assms by (intro sort_key_fst_decreasing) simp
  then show ?thesis using assms by (simp add: reorder_def rev_map [symmetric])
qed

lemma decreasing_not_sorted:
  assumes "sorted_wrt (>) (ys :: real list)" "2 \<le> length ys"
  shows "\<not> sorted ys"
proof
  assume "sorted ys"
  then have "ys ! 0 \<le> ys ! 1" using assms(2) by (simp add: sorted_nth_mono)
  moreover have "ys ! 0 > ys ! 1"
    using sorted_wrt_nth_less [OF assms(1), of 0 1] assms(2) by simp
  ultimately show False by simp
qed

lemma interp2d_satellite_axes:
  assumes x: "sorted_wrt (<) xs" "2 \<le> length xs"
    and y: "sorted_wrt (>) ys" "2 \<le> length ys"
    and z: "has_shape z (length ys) (length xs)"
  shows "interp2d xs ys (Inr z) fill
     = Inr \<lparr>knots_x = xs, knots_y = rev ys, node_values = rev z, fill_value = fill\<rparr>"
proof -
  have sx: "sorted xs" and dx: "distinct xs" using x(1) by (simp_all add: strict_sorted_iff)
  have nsy: "\<not> sorted ys" by (rule decreasing_not_sorted [OF y])
  have ry: "sorted_wrt (<) (rev ys)" using y(1) by (simp add: sorted_wrt_rev)
  then have sry: "sorted (rev ys)" and dy: "distinct ys" by (simp_all add: strict_sorted_iff)
  have sorty: "sort ys = rev ys" by (rule sort_decreasing [OF sry])
  have lz: "length z = length ys" using z by (simp add: has_shape_def)
  have re: "reorder ys z = rev z" by (rule reorder_decreasing [OF y(1) lz])
  have shape: "length z = length ys \<and> list_all (\<lambda>row. length row = length xs) z"
    using z by (simp add: has_shape_def)
  show ?thesis
    using shape sx dx nsy sorty re dy x(2) y(2) by (simp add: interp2d_def Let_def)
qed

lemma evaluate_at_node:
  assumes kx: "sorted_wrt (<) (knots_x f)" "2 \<le> length (knots_x f)"
    and ky: "sorted_wrt (<) (knots_y f)" "2 \<le> length (knots_y f)"
    and z: "has_shape (node_values f) (length (knots_y f)) (length (knots_x f))"
    and i: "i < length (knots_x f)" and j: "j < length (knots_y f)"
  shows "evaluate f (knots_x f ! i) (knots_y f ! j) = node_values f ! j ! i"
proof -
  let ?col = "map (\<lambda>row. interp1 (knots_x f) row (knots_x f ! i)) (node_values f)"
  have lz: "length (node_values f) = length (knots_y f)" using z by (simp add: has_shape_def)
  have inb: "\<not> out_of_bounds (knots_x f) (knots_x f ! i)" "\<not> out_of_bounds (knots_y f) (knots_y f ! j)"
    using kx(1) ky(1) i j by (simp_all add: knot_in_bounds strict_sorted_imp_sorted)
  have "interp1 (knots_y f) ?col (knots_y f ! j) = ?col ! j"
    using ky j lz by (intro interp1_at_knot) simp_all
  also have "?col ! j = interp1 (knots_x f) (node_values f ! j) (knots_x f ! i)"
    using j lz by simp
  also have "\<dots> = node_values f ! j ! i"
    using kx i has_shape_row [OF z j] by (intro interp1_at_knot) simp_all
  finally show ?thesis using inb by (simp add: evaluate_def bilinear_def)
qed

lemma grid_of_nodes:
  assumes kx: "sorted_wrt (<) (knots_x f)" "2 \<le> length (knots_x f)"
    and ky: "sorted_wrt (<) (knots_y f)" "2 \<le> length (knots_y f)"
    and z: "has_shape (node_values f) (length (knots_y f)) (length (knots_x f))"
  shows "map (\<lambda>qy. map (\<lambda>qx. Fin (evaluate f qx qy)) (knots_x f)) (knots_y f)
     = map (map Fin) (node_values f)"
proof (rule nth_equalityI)
  show "length (map (\<lambda>qy. map (\<lambda>qx. Fin (evaluate f qx qy)) (knots_x f)) (knots_y f))
     = length (map (map Fin) (node_values f))"
    using z by (simp add: has_shape_def)
next
  fix j assume "j < length (map (\<lambda>qy. map (\<lambda>qx. Fin (evaluate f qx qy)) (knots_x f)) (knots_y f))"
  then have j: "j < length (knots_y f)" by simp
  have lz: "length (node_values f) = length (knots_y f)" using z by (simp add: has_shape_def)
  have "map (\<lambda>qx. Fin (evaluate f qx (knots_y f ! j))) (knots_x f) = map Fin (node_values f ! j)"
  proof (rule nth_equalityI)
    show "length (map (\<lambda>qx. Fin (evaluate f qx (knots_y f ! j))) (knots_x f))
       = length (map Fin (node_values f ! j))"
      using has_shape_row [OF z j] by simp
  next
    fix i assume "i < length (map (\<lambda>qx. Fin (evaluate f qx (knots_y f ! j))) (knots_x f))"
    then have i: "i < length (knots_x f)" by simp
    show "map (\<lambda>qx. Fin (evaluate f qx (knots_y f ! j))) (knots_x f) ! i
       = map Fin (node_values f ! j) ! i"
      using evaluate_at_node [OF kx ky z i j] i has_shape_row [OF z j] by simp
  qed
  then show "map (\<lambda>qy. map (\<lambda>qx. Fin (evaluate f qx qy)) (knots_x f)) (knots_y f) ! j
     = map (map Fin) (node_values f) ! j"
    using j lz by simp
qed

text \<open>
  On a channel whose two axes increase, the same resampling returns the grid with its
  rows in reverse order.
\<close>

lemma round_trip_increasing_axes:
  assumes "sorted_wrt (<) (ds_x ch)" "2 \<le> length (ds_x ch)"
    and "sorted_wrt (<) (ds_y ch)" "2 \<le> length (ds_y ch)"
    and "ds_values ch = Inr z" "has_shape z (length (ds_y ch)) (length (ds_x ch))"
  shows "interpolate_red_channel ch ch = Inr (ds_x ch, ds_y ch, Arr2 (rev (map (map Fin) z)))"
proof -
  let ?f = "\<lparr>knots_x = ds_x ch, knots_y = ds_y ch, node_values = z, fill_value = 0\<rparr>"
  have sx: "sorted (ds_x ch)" "distinct (ds_x ch)" and sy: "sorted (ds_y ch)" "distinct (ds_y ch)"
    using assms(1,3) by (simp_all add: strict_sorted_iff)
  have shape: "length z = length (ds_y ch) \<and> list_all (\<lambda>row. length row = length (ds_x ch)) z"
    using assms(6) by (simp add: has_shape_def)
  have init: "interp2d (ds_x ch) (ds_y ch) (ds_values ch) 0 = Inr ?f"
    using shape sx sy assms(2,4,5) by (simp add: interp2d_def Let_def)
  have grid: "map (\<lambda>qy. map (\<lambda>qx. Fin (evaluate ?f qx qy)) (ds_x ch)) (ds_y ch) = map (map Fin) z"
    using grid_of_nodes [of ?f] assms(1-4,6) by simp
  have ne: "ds_x ch \<noteq> []" "ds_y ch \<noteq> []" "length z \<noteq> 1"
    using assms(2,4,6) by (auto simp: has_shape_def)
  have call: "interp2d_call ?f (ds_x ch) (ds_y ch) = Inr (Arr2 (map (map Fin) z))"
    using ne sx(1) sy(1) by (simp add: interp2d_call_def sorted_sort_id grid Let_def del: map_map)
  show ?thesis
    by (simp add: interpolate_red_channel_def init call Let_def)
qed

lemmas resample_defs = interpolate_red_channel_def interp2d_def interp2d_call_def evaluate_def
  out_of_bounds_def bilinear_def reorder_def Let_def

text \<open>
  Against claim C3 as stated: a channel whose two axes increase. The interpolant
  reproduces the grid on the channel's own axes, and the \<^verbatim>\<open>[::-1]\<close> of line 109 then
  returns the rows in reverse order: not the channel's grid.
\<close>

theorem round_trip_counterexample:
  "interpolate_red_channel asc_channel asc_channel
     = Inr ([0, 1], [0, 1], Arr2 [[Fin 3, Fin 4], [Fin 1, Fin 2]]) \<and>
   ds_values asc_channel = Inr [[1, 2], [3, 4]]"
  by (simp add: asc_channel_def resample_defs)

text \<open>
  Claim C3, amended. For a channel whose \<open>x\<close> axis is strictly increasing and whose \<open>y\<close>
  axis is strictly decreasing, with at least two coordinates each and a grid of shape
  \<open>(len y, len x)\<close>, resampling the channel onto its own axes returns the channel's grid
  (exactly, in real arithmetic). The interpolant returns its rows by increasing \<open>y\<close>, and
  the reversal of line 109 restores the decreasing order of the channel.
\<close>

theorem round_trip_satellite_axes:
  assumes "sorted_wrt (<) (ds_x ch)" "2 \<le> length (ds_x ch)"
    and "sorted_wrt (>) (ds_y ch)" "2 \<le> length (ds_y ch)"
    and "ds_values ch = Inr z" "has_shape z (length (ds_y ch)) (length (ds_x ch))"
  shows "interpolate_red_channel ch ch = Inr (ds_x ch, ds_y ch, Arr2 (map (map Fin) z))"
proof -
  let ?f = "\<lparr>knots_x = ds_x ch, knots_y = rev (ds_y ch), node_values = rev z, fill_value = 0\<rparr>"
  have init: "interp2d (ds_x ch) (ds_y ch) (ds_values ch) 0 = Inr ?f"
    using interp2d_satellite_axes [OF assms(1-4) assms(6)] assms(5) by simp
  have ry: "sorted_wrt (<) (rev (ds_y ch))" using assms(3) by (simp add: sorted_wrt_rev)
  have sortx: "sort (ds_x ch) = ds_x ch"
    using assms(1) by (simp add: sorted_sort_id strict_sorted_imp_sorted)
  have sorty: "sort (ds_y ch) = rev (ds_y ch)"
    using ry by (intro sort_decreasing) (rule strict_sorted_imp_sorted)
  have rz: "has_shape (rev z) (length (rev (ds_y ch))) (length (ds_x ch))"
    using assms(6) by (simp add: has_shape_def list_all_iff)
  have grid: "map (\<lambda>qy. map (\<lambda>qx. Fin (evaluate ?f qx qy)) (ds_x ch)) (rev (ds_y ch))
     = map (map Fin) (rev z)"
    using grid_of_nodes [of ?f] assms(1,2,4) ry rz by simp
  have ne: "ds_x ch \<noteq> []" "ds_y ch \<noteq> []" "length z \<noteq> 1"
    using assms(2,4,6) by (auto simp: has_shape_def)
  have call: "interp2d_call ?f (ds_x ch) (ds_y ch) = Inr (Arr2 (map (map Fin) (rev z)))"
    using ne by (simp add: interp2d_call_def sortx sorty grid Let_def del: map_map)
  show ?thesis
    by (simp add: interpolate_red_channel_def init call Let_def rev_map)
qed

theorem round_trip_satellite_axes_witness:
  "sorted_wrt (<) (ds_x demo_channel) \<and> sorted_wrt (>) (ds_y demo_channel) \<and>
   ds_values demo_channel = Inr [[1, 2], [3, 4]] \<and>
   interpolate_red_channel demo_channel demo_channel
     = Inr ([0, 1], [1, 0], Arr2 [[Fin 1, Fin 2], [Fin 3, Fin 4]])"
proof -
  have h: "sorted_wrt (<) (ds_x demo_channel)" "2 \<le> length (ds_x demo_channel)"
      "sorted_wrt (>) (ds_y demo_channel)" "2 \<le> length (ds_y demo_channel)"
      "ds_values demo_channel = Inr [[1, 2], [3, 4]]"
      "has_shape [[1, 2], [3, 4 :: real]] (length (ds_y demo_channel)) (length (ds_x demo_channel))"
    by (simp_all add: demo_channel_def has_shape_def)
  show ?thesis
    using round_trip_satellite_axes [OF h] h(1,3,5) by (simp add: demo_channel_def)
qed

text \<open>
  For any target with two rows or more, the entries of the result are the values of the
  interpolant at the sorted coordinates of the target, the rows by decreasing \<open>y\<close>.
\<close>

lemma resample_sorted_order:
  assumes "interp2d (ds_x src) (ds_y src) (ds_values src) 0 = Inr f"
    and "ds_x tgt \<noteq> []" "2 \<le> length (ds_y tgt)"
  shows "interpolate_red_channel src tgt
     = Inr (ds_x tgt, ds_y tgt,
            Arr2 (map (\<lambda>qy. map (\<lambda>qx. Fin (evaluate f qx qy)) (sort (ds_x tgt)))
                   (rev (sort (ds_y tgt)))))"
proof -
  have "sort (ds_x tgt) \<noteq> []" using assms(2) by (metis length_sort length_0_conv)
  moreover have "length (sort (ds_y tgt)) \<noteq> 1" using assms(3) by simp
  moreover have "sort (ds_y tgt) \<noteq> []"
    using assms(3) by (metis length_sort length_0_conv not_numeral_le_zero)
  ultimately show ?thesis
    by (simp add: interpolate_red_channel_def assms(1) interp2d_call_def Let_def rev_map)
qed

lemma interp2d_fields:
  assumes "interp2d x y zc fill = Inr f"
  shows "fill_value f = fill" "knots_x f = sort x" "knots_y f = sort y"
proof -
  obtain z where z: "zc = Inr z" using assms by (cases zc) (simp_all add: interp2d_def)
  have "fill_value f = fill \<and> knots_x f = sort x \<and> knots_y f = sort y"
    using assms unfolding z interp2d_def Let_def
    by (auto split: if_splits simp: sorted_sort_id)
  then show "fill_value f = fill" "knots_x f = sort x" "knots_y f = sort y" by simp_all
qed

lemma demo_fit:
  "interp2d (ds_x demo_channel) (ds_y demo_channel) (ds_values demo_channel) 0 = Inr demo_interpolant"
  by (simp add: demo_channel_def demo_interpolant_def interp2d_def reorder_def Let_def)

text \<open>
  Against claim C6 as stated: a source and a target whose axes increase. Entry \<open>(0, 0)\<close>
  of the result is 3, the source's value at \<open>(x_t[0], y_t[1])\<close>; at
  \<open>(x_t[0], y_t[0])\<close> the source is 1. For a target with a single \<open>y\<close> the result is
  one-dimensional, of shape \<open>(len x_t,)\<close>, and the reversal runs along \<open>x\<close>.
\<close>

theorem resample_rows_counterexample:
  "interpolate_red_channel asc_channel asc_target
     = Inr ([0, 1 / 2], [0, 1], Arr2 [[Fin 3, Fin (7 / 2)], [Fin 1, Fin (3 / 2)]]) \<and>
   interpolate_red_channel asc_channel row_target
     = Inr ([0, 1 / 2], [0], Arr1 [Fin (3 / 2), Fin 1])"
  by (simp add: asc_channel_def asc_target_def row_target_def resample_defs)

text \<open>
  Claim C6, amended. Let the fit of the source succeed, and let the target have an
  increasing \<open>x\<close> axis and a decreasing \<open>y\<close> axis with at least two coordinates. Then the
  resampler returns a grid of shape \<open>(len y_t, len x_t)\<close> whose entry \<open>(j, i)\<close> is the
  bilinear interpolant of the source at \<open>(x_t[i], y_t[j])\<close> when the point lies in the
  envelope of the source's coordinates, and the fill value 0 when it lies outside.
\<close>

theorem resample_entries:
  assumes "interp2d (ds_x src) (ds_y src) (ds_values src) 0 = Inr f"
    and "sorted (ds_x tgt)" "sorted (rev (ds_y tgt))" "ds_x tgt \<noteq> []" "2 \<le> length (ds_y tgt)"
  shows "\<exists>Z. interpolate_red_channel src tgt = Inr (ds_x tgt, ds_y tgt, Arr2 Z) \<and>
           has_shape Z (length (ds_y tgt)) (length (ds_x tgt)) \<and>
           knots_x f = sort (ds_x src) \<and> knots_y f = sort (ds_y src) \<and>
           (\<forall>j<length (ds_y tgt). \<forall>i<length (ds_x tgt).
              Z ! j ! i = Fin (if out_of_bounds (knots_x f) (ds_x tgt ! i) \<or>
                                  out_of_bounds (knots_y f) (ds_y tgt ! j)
                               then 0 else bilinear f (ds_x tgt ! i) (ds_y tgt ! j)))"
proof -
  let ?Z = "map (\<lambda>qy. map (\<lambda>qx. Fin (evaluate f qx qy)) (ds_x tgt)) (ds_y tgt)"
  have sortx: "sort (ds_x tgt) = ds_x tgt" using assms(2) by (rule sorted_sort_id)
  have sorty: "sort (ds_y tgt) = rev (ds_y tgt)" using assms(3) by (rule sort_decreasing)
  have ne: "ds_y tgt \<noteq> []" "length (ds_y tgt) \<noteq> 1" using assms(5) by auto
  have call: "interp2d_call f (ds_x tgt) (ds_y tgt) = Inr (Arr2 (rev ?Z))"
    using ne assms(4) by (simp add: interp2d_call_def sortx sorty Let_def rev_map)
  have run: "interpolate_red_channel src tgt = Inr (ds_x tgt, ds_y tgt, Arr2 ?Z)"
    by (simp add: interpolate_red_channel_def assms(1) call Let_def)
  have shape: "has_shape ?Z (length (ds_y tgt)) (length (ds_x tgt))"
    by (simp add: has_shape_def list_all_length)
  have entries: "\<forall>j<length (ds_y tgt). \<forall>i<length (ds_x tgt).
              ?Z ! j ! i = Fin (if out_of_bounds (knots_x f) (ds_x tgt ! i) \<or>
                                  out_of_bounds (knots_y f) (ds_y tgt ! j)
                               then 0 else bilinear f (ds_x tgt ! i) (ds_y tgt ! j))"
    using interp2d_fields(1) [OF assms(1)] by (simp add: evaluate_def)
  show ?thesis
    using run shape entries interp2d_fields(2,3) [OF assms(1)] by blast
qed

theorem resample_entries_witness:
  "sorted (ds_x demo_target) \<and> sorted (rev (ds_y demo_target)) \<and>
   (\<exists>Z. interpolate_red_channel demo_channel demo_target = Inr ([0, 1 / 2, 2], [1, 1 / 2], Arr2 Z) \<and>
      has_shape Z 2 3 \<and> Z ! 0 ! 1 = Fin (3 / 2) \<and> Z ! 1 ! 1 = Fin (5 / 2) \<and> Z ! 1 ! 2 = Fin 0)"
proof -
  have t: "sorted (ds_x demo_target)" "sorted (rev (ds_y demo_target))" "ds_x demo_target \<noteq> []"
      "2 \<le> length (ds_y demo_target)"
    by (simp_all add: demo_target_def)
  obtain Z where Z: "interpolate_red_channel demo_channel demo_target
        = Inr (ds_x demo_target, ds_y demo_target, Arr2 Z)"
      "has_shape Z (length (ds_y demo_target)) (length (ds_x demo_target))"
      "\<forall>j<length (ds_y demo_target). \<forall>i<length (ds_x demo_target).
          Z ! j ! i = Fin (if out_of_bounds (knots_x demo_interpolant) (ds_x demo_target ! i) \<or>
                              out_of_bounds (knots_y demo_interpolant) (ds_y demo_target ! j)
                           then 0
                           else bilinear demo_interpolant (ds_x demo_target ! i) (ds_y demo_target ! j))"
    using resample_entries [OF demo_fit t] by blast
  have "Z ! 0 ! 1 = Fin (3 / 2)" "Z ! 1 ! 1 = Fin (5 / 2)" "Z ! 1 ! 2 = Fin 0"
    using Z(3) by (simp_all add: demo_target_def demo_interpolant_def out_of_bounds_def bilinear_def)
  moreover have "has_shape Z 2 3"
    using Z(2) by (simp add: demo_target_def numeral_2_eq_2 numeral_3_eq_3)
  moreover have "interpolate_red_channel demo_channel demo_target
      = Inr ([0, 1 / 2, 2], [1, 1 / 2], Arr2 Z)"
    using Z(1) by (simp add: demo_target_def)
  ultimately show ?thesis using t(1,2) by blast
qed

end
